theory Spec2Isabelle
  imports Complex_Main "HOL-Library.Log_Nat"
begin

section \<open>Errors\<close>

text \<open>
  The Python exceptions the two modules raise, as values. A function that can raise
  returns \<open>error + 'a\<close>, with \<open>Inl\<close> carrying the exception.
\<close>

datatype error =
    ValueError string
  | RuntimeError string
  | KeyError string
  | OverflowError

text \<open>
  The design document names the two \<open>ValueError\<close>s that the source raises with a fixed
  message; they are these values.
\<close>

definition UnsupportedNetworkCombination :: error where
  "UnsupportedNetworkCombination = ValueError ''no testnet for COIN-M futures''"

definition MakerOrderNotFound :: error where
  "MakerOrderNotFound =
     ValueError ''Invalid array of maker orders (`maker_address` not found)''"

section \<open>Binance factories\<close>

subsection \<open>Account types and client configuration\<close>

text \<open>
  Modelled from the spec: the enumeration \<open>BinanceAccountType\<close> lives in
  \<open>adapters/binance/common/enums.py\<close>, which is not part of the sources at hand. The
  design document lists its members (spot, margin, USDT-margined futures, coin-margined
  futures); \<open>is_spot\<close> and \<open>is_margin\<close> are its membership properties.
\<close>

datatype BinanceAccountType = SPOT | MARGIN | FUTURES_USDT | FUTURES_COIN

definition is_spot :: "BinanceAccountType \<Rightarrow> bool" where
  "is_spot a = (a = SPOT)"

definition is_margin :: "BinanceAccountType \<Rightarrow> bool" where
  "is_margin a = (a = MARGIN)"

text \<open>
  The fields of \<open>BinanceDataClientConfig\<close> / \<open>BinanceExecClientConfig\<close> that the
  factories read. The instrument-provider configuration is kept abstract (\<open>'cfg\<close>).
\<close>

record 'cfg BinanceClientConfig =
  api_key :: "string option"
  api_secret :: "string option"
  account_type :: BinanceAccountType
  base_url_http :: "string option"
  base_url_ws :: "string option"
  us :: bool
  testnet :: bool
  instrument_provider :: 'cfg

subsection \<open>Base URL resolution\<close>

definition get_http_base_url :: "('cfg, 'z) BinanceClientConfig_scheme \<Rightarrow> error + string" where
  "get_http_base_url config =
     (if testnet config then
        (if account_type config \<in> {SPOT, MARGIN} then
           Inr ''https://testnet.binance.vision/api''
         else if account_type config = FUTURES_USDT then
           Inr ''https://testnet.binancefuture.com''
         else if account_type config = FUTURES_COIN then
           Inr ''https://testnet.binancefuture.com''
         else Inl (RuntimeError ''invalid Binance account type''))
      else
        (let top_level_domain = (if us config then ''us'' else ''com'') in
         if account_type config = SPOT then
           Inr (''https://api.binance.'' @ top_level_domain)
         else if account_type config = MARGIN then
           Inr (''https://sapi.binance.'' @ top_level_domain)
         else if account_type config = FUTURES_USDT then
           Inr (''https://fapi.binance.'' @ top_level_domain)
         else if account_type config = FUTURES_COIN then
           Inr (''https://dapi.binance.'' @ top_level_domain)
         else Inl (RuntimeError ''invalid Binance account type'')))"

definition get_ws_base_url :: "('cfg, 'z) BinanceClientConfig_scheme \<Rightarrow> error + string" where
  "get_ws_base_url config =
     (if testnet config then
        (if account_type config \<in> {SPOT, MARGIN} then
           Inr ''wss://testnet.binance.vision''
         else if account_type config = FUTURES_USDT then
           Inr ''wss://stream.binancefuture.com''
         else if account_type config = FUTURES_COIN then
           Inl (ValueError ''no testnet for COIN-M futures'')
         else Inl (RuntimeError ''invalid Binance account type''))
      else
        (let top_level_domain = (if us config then ''us'' else ''com'') in
         if account_type config \<in> {SPOT, MARGIN} then
           Inr (''wss://stream.binance.'' @ top_level_domain @ '':9443'')
         else if account_type config = FUTURES_USDT then
           Inr (''wss://fstream.binance.'' @ top_level_domain)
         else if account_type config = FUTURES_COIN then
           Inr (''wss://dstream.binance.'' @ top_level_domain)
         else Inl (RuntimeError ''invalid Binance account type'')))"

subsection \<open>The HTTP client registry\<close>

text \<open>
  Python objects are compared by identity. An object built by a constructor call carries
  the number of that call (\<open>obj\<close>); the event loop, clock and logger handed in by the
  caller are object references, modelled by numbers as well.
\<close>

type_synonym ref = nat

record BinanceHttpClient =
  obj :: ref
  loop :: ref
  clock :: ref
  logger :: ref
  key :: string
  secret :: string
  base_url :: "string option"

text \<open>
  The module state: the global dictionary \<open>HTTP_CLIENTS\<close>, the process environment
  \<open>os.environ\<close> that the credential lookups read, and two pieces of instrumentation:
  \<open>next_obj\<close>, the identity the next constructed object gets, and \<open>constructed\<close>, the
  registry keys for which \<open>BinanceHttpClient(...)\<close> has been called, latest first.
\<close>

record factories =
  HTTP_CLIENTS :: "string \<rightharpoonup> BinanceHttpClient"
  environ :: "string \<rightharpoonup> string"
  next_obj :: ref
  constructed :: "string list"

definition environ_get :: "(string \<rightharpoonup> string) \<Rightarrow> string \<Rightarrow> error + string" where
  "environ_get env name = (case env name of None \<Rightarrow> Inl (KeyError name) | Some v \<Rightarrow> Inr v)"

definition get_api_key :: "(string \<rightharpoonup> string) \<Rightarrow> BinanceAccountType \<Rightarrow> bool \<Rightarrow> error + string" where
  "get_api_key env atype is_testnet =
     (if is_testnet then
        (if is_spot atype \<or> is_margin atype then
           environ_get env ''BINANCE_TESTNET_API_KEY''
         else environ_get env ''BINANCE_FUTURES_TESTNET_API_KEY'')
      else if is_spot atype \<or> is_margin atype then
        environ_get env ''BINANCE_API_KEY''
      else environ_get env ''BINANCE_FUTURES_API_KEY'')"

definition get_api_secret :: "(string \<rightharpoonup> string) \<Rightarrow> BinanceAccountType \<Rightarrow> bool \<Rightarrow> error + string" where
  "get_api_secret env atype is_testnet =
     (if is_testnet then
        (if is_spot atype \<or> is_margin atype then
           environ_get env ''BINANCE_TESTNET_API_SECRET''
         else environ_get env ''BINANCE_FUTURES_TESTNET_API_SECRET'')
      else if is_spot atype \<or> is_margin atype then
        environ_get env ''BINANCE_API_SECRET''
      else environ_get env ''BINANCE_FUTURES_API_SECRET'')"

text \<open>
  Python's \<open>x or y\<close> on an optional string: \<open>y\<close> is evaluated only when \<open>x\<close> is
  \<open>None\<close> or empty.
\<close>

definition or_else :: "string option \<Rightarrow> (error + string) \<Rightarrow> error + string" where
  "or_else x y = (case x of None \<Rightarrow> y | Some v \<Rightarrow> if v = [] then y else Inr v)"

text \<open>The registry key \<open>"|".join((key, secret))\<close>.\<close>

definition client_key_of :: "string \<Rightarrow> string \<Rightarrow> string" where
  "client_key_of k s = k @ ''|'' @ s"

text \<open>
  The credentials a call resolves to: the first two statements of
  \<open>get_cached_binance_http_client\<close>.
\<close>

definition resolve_credentials ::
  "(string \<rightharpoonup> string) \<Rightarrow> string option \<Rightarrow> string option \<Rightarrow> BinanceAccountType \<Rightarrow> bool
     \<Rightarrow> error + (string \<times> string)" where
  "resolve_credentials env k s atype is_testnet =
     (case or_else k (get_api_key env atype is_testnet) of
        Inl e \<Rightarrow> Inl e
      | Inr k' \<Rightarrow>
          (case or_else s (get_api_secret env atype is_testnet) of
             Inl e \<Rightarrow> Inl e
           | Inr s' \<Rightarrow> Inr (k', s')))"

definition get_cached_binance_http_client ::
  "ref \<Rightarrow> ref \<Rightarrow> ref \<Rightarrow> string option \<Rightarrow> string option \<Rightarrow> BinanceAccountType
     \<Rightarrow> string option \<Rightarrow> bool \<Rightarrow> factories \<Rightarrow> (error + BinanceHttpClient) \<times> factories" where
  "get_cached_binance_http_client lp clk lg k s atype url is_testnet st =
     (case resolve_credentials (environ st) k s atype is_testnet of
        Inl e \<Rightarrow> (Inl e, st)
      | Inr (k', s') \<Rightarrow>
          (let client_key = client_key_of k' s' in
           case HTTP_CLIENTS st client_key of
             None \<Rightarrow>
               (let client = \<lparr>obj = next_obj st, loop = lp, clock = clk, logger = lg,
                               key = k', secret = s', base_url = url\<rparr>
                in (Inr client,
                    st\<lparr>HTTP_CLIENTS := (HTTP_CLIENTS st)(client_key \<mapsto> client),
                       next_obj := Suc (next_obj st),
                       constructed := client_key # constructed st\<rparr>))
           | Some client \<Rightarrow> (Inr client, st)))"

text \<open>One call of \<open>get_cached_binance_http_client\<close>, with its eight arguments.\<close>

record http_call =
  call_loop :: ref
  call_clock :: ref
  call_logger :: ref
  call_key :: "string option"
  call_secret :: "string option"
  call_account_type :: BinanceAccountType
  call_base_url :: "string option"
  call_is_testnet :: bool

definition do_call :: "http_call \<Rightarrow> factories \<Rightarrow> (error + BinanceHttpClient) \<times> factories" where
  "do_call c st =
     get_cached_binance_http_client (call_loop c) (call_clock c) (call_logger c) (call_key c)
       (call_secret c) (call_account_type c) (call_base_url c) (call_is_testnet c) st"

definition call_client_key :: "(string \<rightharpoonup> string) \<Rightarrow> http_call \<Rightarrow> error + string" where
  "call_client_key env c =
     (case resolve_credentials env (call_key c) (call_secret c) (call_account_type c)
             (call_is_testnet c) of
        Inl e \<Rightarrow> Inl e
      | Inr (k, s) \<Rightarrow> Inr (client_key_of k s))"

text \<open>A sequence of calls, each on the state the previous one left.\<close>

fun do_calls :: "http_call list \<Rightarrow> factories \<Rightarrow> factories" where
  "do_calls [] st = st"
| "do_calls (c # cs) st = do_calls cs (snd (do_call c st))"

text \<open>
  The registry and the construction log agree: a key has been constructed once if it is
  in the registry and never otherwise. The state at import time (\<open>HTTP_CLIENTS = {}\<close>,
  nothing constructed) satisfies it.
\<close>

definition consistent :: "factories \<Rightarrow> bool" where
  "consistent st =
     (\<forall>k. count_list (constructed st) k = (if k \<in> dom (HTTP_CLIENTS st) then 1 else 0))"

definition initial :: "(string \<rightharpoonup> string) \<Rightarrow> factories" where
  "initial env = \<lparr>HTTP_CLIENTS = Map.empty, environ = env, next_obj = 0, constructed = []\<rparr>"

subsection \<open>The instrument provider caches\<close>

text \<open>
  The two provider classes are built from the same four constructor arguments; the
  record keeps them and the identity of the object.
\<close>

datatype provider_class = BinanceSpotInstrumentProvider | BinanceFuturesInstrumentProvider

record 'cfg InstrumentProvider =
  provider_obj :: ref
  provider_class :: provider_class
  provider_client :: BinanceHttpClient
  provider_logger :: ref
  provider_account_type :: BinanceAccountType
  provider_config :: 'cfg

type_synonym 'cfg provider_args = "BinanceHttpClient \<times> ref \<times> BinanceAccountType \<times> 'cfg"

text \<open>
  \<open>functools.lru_cache(1)\<close> memoises on the whole argument tuple and keeps one entry,
  the most recent: a call whose arguments equal the stored ones returns the stored
  result, any other call runs the function and overwrites the entry. Each decorated
  function has a cache of its own; \<open>next_provider\<close> is the identity the next constructed
  provider gets.
\<close>

record 'cfg provider_caches =
  spot_cache :: "('cfg provider_args \<times> 'cfg InstrumentProvider) option"
  futures_cache :: "('cfg provider_args \<times> 'cfg InstrumentProvider) option"
  next_provider :: ref

definition lru_lookup :: "('k \<times> 'v) option \<Rightarrow> 'k \<Rightarrow> 'v option" where
  "lru_lookup cache args =
     (case cache of None \<Rightarrow> None | Some (k, v) \<Rightarrow> if k = args then Some v else None)"

definition get_cached_binance_spot_instrument_provider ::
  "BinanceHttpClient \<Rightarrow> ref \<Rightarrow> BinanceAccountType \<Rightarrow> 'cfg \<Rightarrow> 'cfg provider_caches
     \<Rightarrow> 'cfg InstrumentProvider \<times> 'cfg provider_caches" where
  "get_cached_binance_spot_instrument_provider client lg atype config st =
     (case lru_lookup (spot_cache st) (client, lg, atype, config) of
        Some p \<Rightarrow> (p, st)
      | None \<Rightarrow>
          (let p = \<lparr>provider_obj = next_provider st,
                    provider_class = BinanceSpotInstrumentProvider,
                    provider_client = client, provider_logger = lg,
                    provider_account_type = atype, provider_config = config\<rparr>
           in (p, st\<lparr>spot_cache := Some ((client, lg, atype, config), p),
                     next_provider := Suc (next_provider st)\<rparr>)))"

definition get_cached_binance_futures_instrument_provider ::
  "BinanceHttpClient \<Rightarrow> ref \<Rightarrow> BinanceAccountType \<Rightarrow> 'cfg \<Rightarrow> 'cfg provider_caches
     \<Rightarrow> 'cfg InstrumentProvider \<times> 'cfg provider_caches" where
  "get_cached_binance_futures_instrument_provider client lg atype config st =
     (case lru_lookup (futures_cache st) (client, lg, atype, config) of
        Some p \<Rightarrow> (p, st)
      | None \<Rightarrow>
          (let p = \<lparr>provider_obj = next_provider st,
                    provider_class = BinanceFuturesInstrumentProvider,
                    provider_client = client, provider_logger = lg,
                    provider_account_type = atype, provider_config = config\<rparr>
           in (p, st\<lparr>futures_cache := Some ((client, lg, atype, config), p),
                     next_provider := Suc (next_provider st)\<rparr>)))"

definition no_providers :: "'cfg provider_caches" where
  "no_providers = \<lparr>spot_cache = None, futures_cache = None, next_provider = 0\<rparr>"

text \<open>Concrete values for the examples.\<close>

definition example_config :: "nat BinanceClientConfig" where
  "example_config =
     \<lparr>api_key = Some ''k'', api_secret = Some ''s'', account_type = SPOT,
      base_url_http = None, base_url_ws = None, us = False, testnet = True,
      instrument_provider = 0\<rparr>"

definition example_client :: BinanceHttpClient where
  "example_client =
     \<lparr>obj = 0, loop = 0, clock = 0, logger = 0, key = ''k'', secret = ''s'',
      base_url = Some ''https://api.binance.com''\<rparr>"

definition example_state :: factories where
  "example_state =
     \<lparr>HTTP_CLIENTS = [''k|s'' \<mapsto> example_client], environ = Map.empty, next_obj = 1,
      constructed = [''k|s'']\<rparr>"

definition example_call :: http_call where
  "example_call =
     \<lparr>call_loop = 1, call_clock = 2, call_logger = 3, call_key = Some ''k'',
      call_secret = Some ''s'', call_account_type = SPOT,
      call_base_url = Some ''https://api.binance.com'', call_is_testnet = False\<rparr>"

section \<open>Polymarket user-channel schemas\<close>

subsection \<open>Python's \<open>int\<close> and \<open>float\<close> on strings\<close>

text \<open>
  The payload carries its numbers as strings. The model reads the plain decimal notation
  the venue sends: an optional sign, digits, and for \<open>float\<close> an optional fractional
  part. Python's constructors accept more (surrounding white space, underscores between
  digits, exponents, \<open>inf\<close>, \<open>nan\<close>); on such strings the model raises
  \<open>ValueError\<close>, so a statement about the reports the model produces is a statement
  about payloads in plain decimal notation.
\<close>

definition is_digit :: "char \<Rightarrow> bool" where
  "is_digit c = (48 \<le> (of_char c :: int) \<and> (of_char c :: int) \<le> 57)"

definition digit_val :: "char \<Rightarrow> int" where
  "digit_val c = of_char c - 48"

definition digits_val :: "string \<Rightarrow> int" where
  "digits_val ds = foldl (\<lambda>a c. 10 * a + digit_val c) 0 ds"

definition strip_sign :: "string \<Rightarrow> bool \<times> string" where
  "strip_sign s =
     (case s of
        [] \<Rightarrow> (False, [])
      | c # r \<Rightarrow> if c = CHR ''-'' then (True, r) else if c = CHR ''+'' then (False, r)
                 else (False, s))"

definition py_int :: "string \<Rightarrow> error + int" where
  "py_int s =
     (let (negative, ds) = strip_sign s in
      if ds \<noteq> [] \<and> list_all is_digit ds then
        Inr (if negative then - digits_val ds else digits_val ds)
      else Inl (ValueError (''invalid literal for int() with base 10: '' @ s)))"

text \<open>The exact value of a decimal literal, \<open>None\<close> when the string is not one.\<close>

definition parse_decimal :: "string \<Rightarrow> rat option" where
  "parse_decimal s =
     (let (negative, body) = strip_sign s;
          ip = takeWhile (\<lambda>c. c \<noteq> CHR ''.'') body;
          fp = drop 1 (dropWhile (\<lambda>c. c \<noteq> CHR ''.'') body)
      in if list_all is_digit ip \<and> list_all is_digit fp \<and> ip @ fp \<noteq> [] then
           Some ((if negative then - 1 else 1) * of_int (digits_val (ip @ fp))
                 / 10 ^ length fp)
         else None)"

text \<open>
  A Python \<open>float\<close> is an IEEE 754 binary64 number. A finite one is a rational number
  and is modelled by it; the two infinities are values of their own.
\<close>

datatype pyfloat = Finite rat | PosInf | NegInf

definition round_half_even :: "rat \<Rightarrow> int" where
  "round_half_even x =
     (let f = \<lfloor>x\<rfloor>; d = x - of_int f
      in if d < 1 / 2 then f else if 1 / 2 < d then f + 1 else if even f then f else f + 1)"

text \<open>\<open>ilog2 x\<close> is the exponent \<open>e\<close> with \<open>2^e \<le> x < 2^(e+1)\<close>, for positive \<open>x\<close>.\<close>

definition ilog2 :: "rat \<Rightarrow> int" where
  "ilog2 x =
     (let (a, b) = quotient_of x; e = bitlen a - bitlen b
      in if power_int 2 e \<le> x then e else e - 1)"

text \<open>
  Rounding to binary64, to nearest with ties to even: 53 significant bits, the unit in
  the last place never below \<open>2^-1074\<close> (subnormal numbers), and a result whose
  magnitude would reach \<open>2^1024\<close> is an infinity. With \<open>m\<close> the rounded significand
  and \<open>e\<close> the exponent of its unit, \<open>\<bar>m\<bar> * 2^e\<close> reaches \<open>2^1024\<close> exactly when
  \<open>bitlen \<bar>m\<bar> + e\<close> exceeds 1024.
\<close>

definition nearest_double :: "rat \<Rightarrow> pyfloat" where
  "nearest_double x =
     (if x = 0 then Finite 0
      else
        let e = max (ilog2 \<bar>x\<bar> - 52) (- 1074);
            m = round_half_even (x / power_int 2 e)
        in if 1024 < bitlen \<bar>m\<bar> + e then (if 0 < x then PosInf else NegInf)
           else Finite (of_int m * power_int 2 e))"

text \<open>\<open>float(s)\<close>: the double nearest to the value of the literal.\<close>

definition py_float :: "string \<Rightarrow> error + pyfloat" where
  "py_float s =
     (case parse_decimal s of
        None \<Rightarrow> Inl (ValueError (''could not convert string to float: '' @ s))
      | Some v \<Rightarrow> Inr (nearest_double v))"

text \<open>Running the next step unless the previous one raised.\<close>

definition and_then :: "error + 'a \<Rightarrow> ('a \<Rightarrow> error + 'b) \<Rightarrow> error + 'b" where
  "and_then x f = (case x of Inl e \<Rightarrow> Inl e | Inr v \<Rightarrow> f v)"

subsection \<open>Instrument scaling and time conversion\<close>

text \<open>
  Modelled from the spec: \<open>Price\<close>, \<open>Quantity\<close>, \<open>BinaryOption.make_price\<close>,
  \<open>BinaryOption.make_qty\<close> and \<open>millis_to_nanos\<close> are defined outside the sources at
  hand. After the design document, a price or quantity is a fixed-point value at the
  instrument's precision, "the fixed number of decimal places a given tradable
  instrument uses": an integer \<open>raw\<close> standing for \<open>raw / 10^precision\<close>. The
  instrument's scaling functions rescale the float they are given to that precision,
  here to the nearest such value, a tie going away from zero; an infinity has no
  fixed-point value. \<open>millis_to_nanos\<close> produces "the equivalent nanosecond count" and
  fails "when the nanosecond conversion would exceed the representable range", taken to
  be that of an unsigned 64-bit integer.
\<close>

record fixed =
  raw :: int
  precision :: nat

type_synonym Price = fixed
type_synonym Quantity = fixed

definition fixed_value :: "fixed \<Rightarrow> rat" where
  "fixed_value f = of_int (raw f) / 10 ^ precision f"

definition round_half_away :: "rat \<Rightarrow> int" where
  "round_half_away x = (if 0 \<le> x then \<lfloor>x + 1 / 2\<rfloor> else - \<lfloor>- x + 1 / 2\<rfloor>)"

definition to_fixed :: "nat \<Rightarrow> pyfloat \<Rightarrow> error + fixed" where
  "to_fixed p x =
     (case x of
        Finite v \<Rightarrow> Inr \<lparr>raw = round_half_away (v * 10 ^ p), precision = p\<rparr>
      | PosInf \<Rightarrow> Inl (ValueError ''value is not finite'')
      | NegInf \<Rightarrow> Inl (ValueError ''value is not finite''))"

record BinaryOption =
  id' :: string
  price_precision :: nat
  size_precision :: nat

definition make_price :: "BinaryOption \<Rightarrow> pyfloat \<Rightarrow> error + Price" where
  "make_price instrument x = to_fixed (price_precision instrument) x"

definition make_qty :: "BinaryOption \<Rightarrow> pyfloat \<Rightarrow> error + Quantity" where
  "make_qty instrument x = to_fixed (size_precision instrument) x"

definition millis_to_nanos :: "int \<Rightarrow> error + int" where
  "millis_to_nanos millis =
     (if 0 \<le> millis * 1000000 \<and> millis * 1000000 < 2 ^ 64 then Inr (millis * 1000000)
      else Inl OverflowError)"

subsection \<open>Vocabulary and identifiers\<close>

text \<open>
  The venue's enumerations of order side, order type, order status, trade status and
  event type, the platform's enumerations of order side, time in force and order status,
  and the mappers between them (\<open>adapters/polymarket/common/enums.py\<close> and
  \<open>parsing.py\<close>) are outside the sources at hand. The payload and report types take
  the enumerations as type parameters and the parsers take the three mappers as a
  parameter, so that what is proved holds for any vocabulary.
\<close>

record ('side, 'otype, 'status, 'oside, 'tif, 'ostatus) parsing =
  parse_order_side :: "'side \<Rightarrow> 'oside"
  parse_time_in_force :: "'otype \<Rightarrow> 'tif"
  parse_order_status :: "'status \<Rightarrow> 'ostatus"

text \<open>
  Modelled from the spec: the liquidity sides and the order and contingency types are
  enumerations defined outside the sources at hand. The source names the members
  \<open>PolymarketLiquiditySide.MAKER\<close>, \<open>LiquiditySide.MAKER\<close>, \<open>LiquiditySide.TAKER\<close>,
  \<open>OrderType.LIMIT\<close> and \<open>ContingencyType.NO_CONTINGENCY\<close>; after the design document
  a trade is reported from the maker's or the taker's perspective, which gives the
  venue's liquidity side its second member. The identifier classes are taken to wrap the
  string they are built from.
\<close>

datatype PolymarketLiquiditySide = MAKER | TAKER

datatype LiquiditySide = MAKER | TAKER

datatype OrderType = LIMIT

datatype ContingencyType = NO_CONTINGENCY

datatype VenueOrderId = VenueOrderId (venue_order_id_value: string)

datatype TradeId = TradeId (trade_id_value: string)

type_synonym AccountId = string
type_synonym InstrumentId = string
type_synonym ClientOrderId = string
type_synonym UUID4 = string

subsection \<open>Reports\<close>

text \<open>
  Modelled from the spec: the report classes (\<open>execution/reports.py\<close>) are outside the
  sources at hand. After the design document a report is an immutable record of its
  attributes, here the keyword arguments the parsers pass to the constructors, and the
  report types come with "their construction invariants". For an order status report
  these are \<open>filled_qty \<le> quantity\<close> and "\<open>venue_order_id\<close> is never empty": the
  constructor \<open>OrderStatusReport(...)\<close>, modelled by \<open>new_OrderStatusReport\<close>, raises
  when its arguments break one of the two and stores them otherwise. The design document
  names no error for a broken invariant; the model raises a \<open>ValueError\<close>. The third
  invariant of an order status report (timestamps nondecreasing per venue order id) and
  the invariant of a fill report (the trade id identifies the fill at the venue) relate
  several reports to each other, so they are no condition on one construction, and the
  constructor of a fill report stores its arguments.
\<close>

record ('oside, 'tif, 'ostatus) OrderStatusReport =
  account_id :: AccountId
  instrument_id :: InstrumentId
  client_order_id :: "ClientOrderId option"
  order_list_id :: "string option"
  venue_order_id :: VenueOrderId
  order_side :: 'oside
  order_type :: OrderType
  contingency_type :: ContingencyType
  time_in_force :: 'tif
  expire_time :: "int option"
  order_status :: 'ostatus
  price :: Price
  quantity :: Quantity
  filled_qty :: Quantity
  ts_accepted :: int
  ts_last :: int
  report_id :: UUID4
  ts_init :: int

definition new_OrderStatusReport ::
  "('oside, 'tif, 'ostatus) OrderStatusReport
     \<Rightarrow> error + ('oside, 'tif, 'ostatus) OrderStatusReport" where
  "new_OrderStatusReport args =
     (if venue_order_id_value (OrderStatusReport.venue_order_id args) = [] then
        Inl (ValueError ''venue_order_id is empty'')
      else if fixed_value (filled_qty args) \<le> fixed_value (quantity args) then Inr args
      else Inl (ValueError ''filled_qty exceeds quantity''))"

record 'oside FillReport =
  account_id :: AccountId
  instrument_id :: InstrumentId
  client_order_id :: "ClientOrderId option"
  venue_order_id :: VenueOrderId
  trade_id :: TradeId
  order_side :: 'oside
  last_qty :: Quantity
  last_px :: Price
  liquidity_side :: LiquiditySide
  report_id :: UUID4
  ts_event :: int
  ts_init :: int

subsection \<open>Payloads\<close>

text \<open>
  Of \<open>PolymarketMakerOrder\<close> (\<open>schemas/order.py\<close>, outside the sources at hand), the
  two fields the trade payload reads.
\<close>

record PolymarketMakerOrder =
  maker_address :: string
  order_id :: string

record ('side, 'otype, 'status, 'etype) PolymarketUserOrder =
  asset_id :: string
  associate_trades :: "string list option"
  created_at :: string
  expiration :: string
  id' :: string
  maker_address :: string
  market :: string
  order_owner :: string
  order_type :: 'otype
  original_size :: string
  outcome :: string
  owner :: string
  price :: string
  side :: 'side
  size_matched :: string
  status :: 'status
  timestamp :: string
  type' :: 'etype

record ('side, 'tstatus, 'etype) PolymarketUserTrade =
  asset_id :: string
  bucket_index :: string
  fee_rate_bps :: string
  id' :: string
  last_update :: string
  maker_address :: string
  maker_orders :: "PolymarketMakerOrder list"
  market :: string
  match_time :: string
  outcome :: string
  owner :: string
  price :: string
  side :: 'side
  size' :: string
  status :: 'tstatus
  taker_order_id :: string
  timestamp :: string
  trade_owner :: string
  trader_side :: PolymarketLiquiditySide
  type' :: 'etype

record ('side, 'otype, 'status) PolymarketOpenOrder =
  associate_trades :: "string list option"
  id' :: string
  status :: 'status
  market :: string
  original_size :: string
  outcome :: string
  maker_address :: string
  owner :: string
  price :: string
  side :: 'side
  size_matched :: string
  asset_id :: string
  expiration :: string
  order_type :: 'otype
  created_at :: int

subsection \<open>Parsing an order update\<close>

text \<open>
  The methods of the three payload classes. The keyword arguments of the report
  constructor are evaluated in the order they are written, so the first conversion that
  raises decides the exception, and the constructor runs once all of them have a value. \<open>UUID4()\<close> draws a fresh identifier; the model takes
  it as an argument (\<open>uuid\<close>).
\<close>

definition user_order_venue_order_id ::
  "('side, 'otype, 'status, 'etype) PolymarketUserOrder \<Rightarrow> VenueOrderId" where
  "user_order_venue_order_id self = VenueOrderId (PolymarketUserOrder.id' self)"

definition expire_time_of :: "string \<Rightarrow> error + int option" where
  "expire_time_of expiration_field =
     (if expiration_field \<noteq> [] then
        and_then (py_int expiration_field) (\<lambda>millis.
        and_then (millis_to_nanos millis) (\<lambda>nanos. Inr (Some nanos)))
      else Inr None)"

definition user_order_parse_to_order_status_report ::
  "('side, 'otype, 'status, 'oside, 'tif, 'ostatus) parsing \<Rightarrow> UUID4
     \<Rightarrow> ('side, 'otype, 'status, 'etype) PolymarketUserOrder
     \<Rightarrow> AccountId \<Rightarrow> BinaryOption \<Rightarrow> ClientOrderId option \<Rightarrow> int
     \<Rightarrow> error + ('oside, 'tif, 'ostatus) OrderStatusReport" where
  "user_order_parse_to_order_status_report vocab uuid self acct instrument cl_ord_id init =
     and_then (py_int (PolymarketUserOrder.timestamp self)) (\<lambda>timestamp_ms.
     and_then (expire_time_of (PolymarketUserOrder.expiration self)) (\<lambda>expire.
     and_then (and_then (py_float (PolymarketUserOrder.price self)) (make_price instrument)) (\<lambda>px.
     and_then (and_then (py_float (PolymarketUserOrder.original_size self)) (make_qty instrument)) (\<lambda>qty.
     and_then (and_then (py_float (PolymarketUserOrder.size_matched self)) (make_qty instrument)) (\<lambda>filled.
     and_then (millis_to_nanos timestamp_ms) (\<lambda>accepted.
     and_then (millis_to_nanos timestamp_ms) (\<lambda>last.
       new_OrderStatusReport \<lparr>OrderStatusReport.account_id = acct,
            instrument_id = BinaryOption.id' instrument,
            client_order_id = cl_ord_id,
            order_list_id = None,
            venue_order_id = user_order_venue_order_id self,
            order_side = parse_order_side vocab (PolymarketUserOrder.side self),
            order_type = LIMIT,
            contingency_type = NO_CONTINGENCY,
            time_in_force = parse_time_in_force vocab (PolymarketUserOrder.order_type self),
            expire_time = expire,
            order_status = parse_order_status vocab (PolymarketUserOrder.status self),
            price = px,
            quantity = qty,
            filled_qty = filled,
            ts_accepted = accepted,
            ts_last = last,
            report_id = uuid,
            ts_init = init\<rparr>)))))))"

definition user_order_parse_to_fill_report ::
  "('side, 'otype, 'status, 'oside, 'tif, 'ostatus) parsing \<Rightarrow> UUID4
     \<Rightarrow> ('side, 'otype, 'status, 'etype) PolymarketUserOrder
     \<Rightarrow> AccountId \<Rightarrow> BinaryOption \<Rightarrow> ClientOrderId option \<Rightarrow> LiquiditySide \<Rightarrow> int
     \<Rightarrow> error + 'oside FillReport" where
  "user_order_parse_to_fill_report vocab uuid self acct instrument cl_ord_id liq init =
     and_then (and_then (py_float (PolymarketUserOrder.size_matched self)) (make_qty instrument)) (\<lambda>qty.
     and_then (and_then (py_float (PolymarketUserOrder.price self)) (make_price instrument)) (\<lambda>px.
     and_then (and_then (py_int (PolymarketUserOrder.timestamp self)) millis_to_nanos) (\<lambda>event.
       Inr \<lparr>FillReport.account_id = acct,
            instrument_id = BinaryOption.id' instrument,
            client_order_id = cl_ord_id,
            venue_order_id = user_order_venue_order_id self,
            trade_id = TradeId (PolymarketUserOrder.id' self),
            order_side = parse_order_side vocab (PolymarketUserOrder.side self),
            last_qty = qty,
            last_px = px,
            liquidity_side = liq,
            report_id = uuid,
            ts_event = event,
            ts_init = init\<rparr>)))"

subsection \<open>Parsing a trade\<close>

definition liqudity_side :: "('side, 'tstatus, 'etype) PolymarketUserTrade \<Rightarrow> LiquiditySide" where
  "liqudity_side self =
     (if trader_side self = PolymarketLiquiditySide.MAKER then LiquiditySide.MAKER
      else LiquiditySide.TAKER)"

text \<open>
  The loop \<open>for order in reversed(self.maker_orders)\<close> returns at the first element of
  the reversed list whose address matches, and the statement after the loop raises.
\<close>

fun first_maker_order :: "PolymarketMakerOrder list \<Rightarrow> string \<Rightarrow> error + VenueOrderId" where
  "first_maker_order [] addr = Inl MakerOrderNotFound"
| "first_maker_order (order # orders) addr =
     (if PolymarketMakerOrder.maker_address order = addr then
        Inr (VenueOrderId (order_id order))
      else first_maker_order orders addr)"

definition user_trade_venue_order_id ::
  "('side, 'tstatus, 'etype) PolymarketUserTrade \<Rightarrow> string \<Rightarrow> error + VenueOrderId" where
  "user_trade_venue_order_id self addr =
     (if trader_side self = PolymarketLiquiditySide.MAKER then
        first_maker_order (rev (maker_orders self)) addr
      else Inr (VenueOrderId (taker_order_id self)))"

definition user_trade_parse_to_fill_report ::
  "('side, 'otype, 'status, 'oside, 'tif, 'ostatus) parsing \<Rightarrow> UUID4
     \<Rightarrow> ('side, 'tstatus, 'etype) PolymarketUserTrade
     \<Rightarrow> AccountId \<Rightarrow> BinaryOption \<Rightarrow> ClientOrderId option \<Rightarrow> string \<Rightarrow> int
     \<Rightarrow> error + 'oside FillReport" where
  "user_trade_parse_to_fill_report vocab uuid self acct instrument cl_ord_id addr init =
     and_then (user_trade_venue_order_id self addr) (\<lambda>v_ord_id.
     and_then (and_then (py_float (size' self)) (make_qty instrument)) (\<lambda>qty.
     and_then (and_then (py_float (PolymarketUserTrade.price self)) (make_price instrument)) (\<lambda>px.
     and_then (and_then (py_int (match_time self)) millis_to_nanos) (\<lambda>event.
       Inr \<lparr>FillReport.account_id = acct,
            instrument_id = BinaryOption.id' instrument,
            client_order_id = cl_ord_id,
            venue_order_id = v_ord_id,
            trade_id = TradeId (PolymarketUserTrade.id' self),
            order_side = parse_order_side vocab (PolymarketUserTrade.side self),
            last_qty = qty,
            last_px = px,
            liquidity_side = liqudity_side self,
            report_id = uuid,
            ts_event = event,
            ts_init = init\<rparr>))))"

subsection \<open>Parsing an open order\<close>

definition get_venue_order_id :: "('side, 'otype, 'status) PolymarketOpenOrder \<Rightarrow> VenueOrderId" where
  "get_venue_order_id self = VenueOrderId (PolymarketOpenOrder.id' self)"

definition open_order_parse_to_order_status_report ::
  "('side, 'otype, 'status, 'oside, 'tif, 'ostatus) parsing \<Rightarrow> UUID4
     \<Rightarrow> ('side, 'otype, 'status) PolymarketOpenOrder
     \<Rightarrow> AccountId \<Rightarrow> BinaryOption \<Rightarrow> ClientOrderId option \<Rightarrow> int
     \<Rightarrow> error + ('oside, 'tif, 'ostatus) OrderStatusReport" where
  "open_order_parse_to_order_status_report vocab uuid self acct instrument cl_ord_id init =
     and_then (expire_time_of (expiration self)) (\<lambda>expire.
     and_then (and_then (py_float (price self)) (make_price instrument)) (\<lambda>px.
     and_then (and_then (py_float (original_size self)) (make_qty instrument)) (\<lambda>qty.
     and_then (and_then (py_float (size_matched self)) (make_qty instrument)) (\<lambda>filled.
     and_then (millis_to_nanos (created_at self)) (\<lambda>accepted.
     and_then (millis_to_nanos (created_at self)) (\<lambda>last.
       new_OrderStatusReport \<lparr>OrderStatusReport.account_id = acct,
            instrument_id = BinaryOption.id' instrument,
            client_order_id = cl_ord_id,
            order_list_id = None,
            venue_order_id = get_venue_order_id self,
            order_side = parse_order_side vocab (side self),
            order_type = LIMIT,
            contingency_type = NO_CONTINGENCY,
            time_in_force = parse_time_in_force vocab (order_type self),
            expire_time = expire,
            order_status = parse_order_status vocab (status self),
            price = px,
            quantity = qty,
            filled_qty = filled,
            ts_accepted = accepted,
            ts_last = last,
            report_id = uuid,
            ts_init = init\<rparr>))))))"

subsection \<open>Example payloads\<close>

text \<open>
  The examples write an enumeration member as its wire string and take the identity as
  every mapper.
\<close>

definition example_vocab :: "(string, string, string, string, string, string) parsing" where
  "example_vocab =
     \<lparr>parse_order_side = (\<lambda>x. x), parse_time_in_force = (\<lambda>x. x),
      parse_order_status = (\<lambda>x. x)\<rparr>"

definition example_instrument :: BinaryOption where
  "example_instrument = \<lparr>BinaryOption.id' = ''TOKEN.POLYMARKET'', price_precision = 2, size_precision = 2\<rparr>"

definition example_order :: "(string, string, string, string) PolymarketUserOrder" where
  "example_order =
     \<lparr>PolymarketUserOrder.asset_id = ''7'', associate_trades = None, created_at = ''1700000000'',
      expiration = ''0'', id' = ''0xabc'', maker_address = ''0x01'', market = ''0x02'',
      order_owner = ''o'', order_type = ''GTC'', original_size = ''10.5'',
      outcome = ''Yes'', owner = ''o'', price = ''0.37'', side = ''BUY'',
      size_matched = ''2.0'', status = ''LIVE'', timestamp = ''1700000000000'',
      type' = ''UPDATE''\<rparr>"

definition example_open_order :: "(string, string, string) PolymarketOpenOrder" where
  "example_open_order =
     \<lparr>associate_trades = None, id' = ''0xabc'', status = ''LIVE'', market = ''0x02'',
      original_size = ''10.5'', outcome = ''Yes'', maker_address = ''0x01'', owner = ''o'',
      price = ''0.37'', side = ''BUY'', size_matched = ''2.0'', asset_id = ''7'',
      expiration = ''0'', order_type = ''GTC'', created_at = 1700000000000\<rparr>"

definition example_trade :: "(string, string, string) PolymarketUserTrade" where
  "example_trade =
     \<lparr>PolymarketUserTrade.asset_id = ''7'', bucket_index = ''0'', fee_rate_bps = ''0'', id' = ''t1'',
      last_update = ''1700000000'', maker_address = ''0x09'',
      maker_orders =
        [\<lparr>PolymarketMakerOrder.maker_address = ''0x01'', order_id = ''a''\<rparr>,
         \<lparr>PolymarketMakerOrder.maker_address = ''0x05'', order_id = ''b''\<rparr>,
         \<lparr>PolymarketMakerOrder.maker_address = ''0x01'', order_id = ''c''\<rparr>,
         \<lparr>PolymarketMakerOrder.maker_address = ''0x07'', order_id = ''d''\<rparr>],
      market = ''0x02'', match_time = ''1700000000000'', outcome = ''Yes'', owner = ''o'',
      price = ''0.37'', side = ''BUY'', size' = ''2.0'', status = ''MATCHED'',
      taker_order_id = ''tk'', timestamp = ''1700000000000'', trade_owner = ''o'',
      trader_side = PolymarketLiquiditySide.MAKER, type' = ''TRADE''\<rparr>"

definition example_report :: "(string, string, string) OrderStatusReport" where
  "example_report =
     \<lparr>OrderStatusReport.account_id = ''acc'', instrument_id = ''TOKEN.POLYMARKET'',
      client_order_id = None, order_list_id = None, venue_order_id = VenueOrderId ''0xabc'',
      order_side = ''BUY'', order_type = LIMIT, contingency_type = NO_CONTINGENCY,
      time_in_force = ''GTC'', expire_time = Some 0, order_status = ''LIVE'',
      price = \<lparr>raw = 37, precision = 2\<rparr>, quantity = \<lparr>raw = 1050, precision = 2\<rparr>,
      filled_qty = \<lparr>raw = 200, precision = 2\<rparr>, ts_accepted = 1700000000000000000,
      ts_last = 1700000000000000000, report_id = ''u'', ts_init = 5\<rparr>"

text \<open>
  The exponent of the unit in the last place and the rounded significand that
  \<open>nearest_double\<close> computes for a nonzero \<open>x\<close>, named for the proofs.
\<close>

definition float_exponent :: "rat \<Rightarrow> int" where
  "float_exponent x = max (ilog2 \<bar>x\<bar> - 52) (- 1074)"

definition float_significand :: "rat \<Rightarrow> int" where
  "float_significand x = round_half_even (x / power_int 2 (float_exponent x))"

section \<open>Properties of the Binance factories\<close>

text \<open>
  C6. Whatever the regional flag, the WebSocket base URL of coin-margined futures on the
  test network is not resolved: the call raises the \<open>ValueError\<close> that the design
  document calls UnsupportedNetworkCombination, and returns no URL.
\<close>

theorem ws_coin_testnet_unsupported:
  "get_ws_base_url (config\<lparr>account_type := FUTURES_COIN, testnet := True, us := regional\<rparr>)
     = Inl UnsupportedNetworkCombination"
  by (simp add: get_ws_base_url_def UnsupportedNetworkCombination_def)

theorem ws_coin_testnet_unsupported_witness:
  "get_ws_base_url (example_config\<lparr>account_type := FUTURES_COIN, testnet := True, us := True\<rparr>)
     = Inl (ValueError ''no testnet for COIN-M futures'')"
  using ws_coin_testnet_unsupported [where config = example_config and regional = True]
  by (simp add: UnsupportedNetworkCombination_def)

text \<open>
  C5, as stated, asks for a distinct test-network HTTP host for each futures sub-market.
  The resolver returns the same base URL for USDT-margined and coin-margined futures.
\<close>

theorem futures_testnet_http_distinct_counterexample:
  "\<not> (get_http_base_url (example_config\<lparr>account_type := FUTURES_USDT\<rparr>)
        \<noteq> get_http_base_url (example_config\<lparr>account_type := FUTURES_COIN\<rparr>))"
  by (simp add: get_http_base_url_def example_config_def)

text \<open>
  C5, amended. On the test network, spot and margin resolve to one HTTP base URL and one
  WebSocket base URL, and the two futures sub-markets resolve to one common HTTP base
  URL, which is not the spot/margin one.
\<close>

theorem testnet_hosts:
  "get_http_base_url (config\<lparr>testnet := True, account_type := SPOT\<rparr>)
     = Inr ''https://testnet.binance.vision/api''
   \<and> get_http_base_url (config\<lparr>testnet := True, account_type := MARGIN\<rparr>)
     = Inr ''https://testnet.binance.vision/api''
   \<and> get_ws_base_url (config\<lparr>testnet := True, account_type := SPOT\<rparr>)
     = Inr ''wss://testnet.binance.vision''
   \<and> get_ws_base_url (config\<lparr>testnet := True, account_type := MARGIN\<rparr>)
     = Inr ''wss://testnet.binance.vision''
   \<and> get_http_base_url (config\<lparr>testnet := True, account_type := FUTURES_USDT\<rparr>)
     = Inr ''https://testnet.binancefuture.com''
   \<and> get_http_base_url (config\<lparr>testnet := True, account_type := FUTURES_COIN\<rparr>)
     = Inr ''https://testnet.binancefuture.com''"
  by (simp add: get_http_base_url_def get_ws_base_url_def)

text \<open>
  C9. With an explicit, non-empty key and secret whose registry key is already in
  \<open>HTTP_CLIENTS\<close>, the call returns the stored client and leaves the state as it was,
  whatever loop, clock, logger, account type, base URL and test-network flag are passed:
  two calls that differ only in those get the same instance.
\<close>

theorem cached_client_by_credentials:
  assumes "k \<noteq> []" and "s \<noteq> []"
    and "HTTP_CLIENTS st (client_key_of k s) = Some c"
  shows "get_cached_binance_http_client lp clk lg (Some k) (Some s) atype url tn st = (Inr c, st)
       \<and> get_cached_binance_http_client lp' clk' lg' (Some k) (Some s) atype' url' tn' st
           = (Inr c, st)"
  using assms
  by (simp add: get_cached_binance_http_client_def resolve_credentials_def or_else_def)

theorem cached_client_by_credentials_witness:
  "get_cached_binance_http_client 1 2 3 (Some ''k'') (Some ''s'') SPOT
       (Some ''https://testnet.binance.vision/api'') True example_state
     = (Inr example_client, example_state)
   \<and> get_cached_binance_http_client 4 5 6 (Some ''k'') (Some ''s'') FUTURES_USDT
       (Some ''https://fapi.binance.us'') False example_state
     = (Inr example_client, example_state)
   \<and> base_url example_client = Some ''https://api.binance.com''"
  using cached_client_by_credentials [of "''k''" "''s''" example_state example_client
      1 2 3 SPOT "Some ''https://testnet.binance.vision/api''" True
      4 5 6 FUTURES_USDT "Some ''https://fapi.binance.us''" False]
  by (simp add: example_state_def client_key_of_def example_client_def)

text \<open>
  C4 at a failing input. Three requests for a spot provider with the same client, logger
  and account type; the second differs from the first in the configuration only, the
  third repeats the first. Each of them constructs a new provider: the second request
  replaces the cached provider of the first, and the third no longer finds it.
\<close>

theorem provider_replaced_on_new_arguments:
  "(let (p1, s1) = get_cached_binance_spot_instrument_provider example_client 0 SPOT (0::nat)
                     no_providers;
        (p2, s2) = get_cached_binance_spot_instrument_provider example_client 0 SPOT 1 s1;
        (p3, s3) = get_cached_binance_spot_instrument_provider example_client 0 SPOT 0 s2
    in provider_account_type p1 = SPOT \<and> provider_account_type p2 = SPOT
       \<and> provider_account_type p3 = SPOT
       \<and> provider_obj p1 = 0 \<and> provider_obj p2 = 1 \<and> provider_obj p3 = 2
       \<and> p1 \<noteq> p2 \<and> p1 \<noteq> p3
       \<and> lru_lookup (spot_cache s2) (example_client, 0, SPOT, 0) = None)"
  by (simp add: get_cached_binance_spot_instrument_provider_def no_providers_def
      lru_lookup_def Let_def)

lemma do_call_cases:
  "(\<exists>e. do_call c st = (Inl e, st) \<and> call_client_key (environ st) c = Inl e)
   \<or> (\<exists>ck cl. call_client_key (environ st) c = Inr ck \<and> HTTP_CLIENTS st ck = Some cl
         \<and> do_call c st = (Inr cl, st))
   \<or> (\<exists>ck cl. call_client_key (environ st) c = Inr ck \<and> HTTP_CLIENTS st ck = None
         \<and> do_call c st = (Inr cl, st\<lparr>HTTP_CLIENTS := (HTTP_CLIENTS st)(ck \<mapsto> cl),
               next_obj := Suc (next_obj st), constructed := ck # constructed st\<rparr>))"
  by (auto simp: do_call_def get_cached_binance_http_client_def call_client_key_def Let_def
      split: sum.splits option.splits prod.splits)

lemma do_call_environ: "environ (snd (do_call c st)) = environ st"
  using do_call_cases [of c st] by auto

lemma do_call_keeps:
  "HTTP_CLIENTS st k = Some v \<Longrightarrow> HTTP_CLIENTS (snd (do_call c st)) k = Some v"
  using do_call_cases [of c st] by auto

lemma do_call_consistent: "consistent st \<Longrightarrow> consistent (snd (do_call c st))"
proof -
  assume c: "consistent st"
  consider (same) "snd (do_call c st) = st"
    | (new) ck cl where "HTTP_CLIENTS st ck = None"
        "snd (do_call c st) = st\<lparr>HTTP_CLIENTS := (HTTP_CLIENTS st)(ck \<mapsto> cl),
               next_obj := Suc (next_obj st), constructed := ck # constructed st\<rparr>"
    using do_call_cases [of c st] by auto
  then show ?thesis
  proof cases
    case same
    then show ?thesis using c by simp
  next
    case new
    have "count_list (constructed st) ck = 0"
      using c new(1) by (auto simp: consistent_def dom_def)
    then show ?thesis
      using c by (auto simp: new(2) consistent_def dom_def)
  qed
qed

lemma do_call_stored:
  "do_call c st = (Inr cl, st') \<Longrightarrow>
     \<exists>ck. call_client_key (environ st) c = Inr ck \<and> HTTP_CLIENTS st' ck = Some cl"
  using do_call_cases [of c st] by auto

lemma do_call_hit:
  "call_client_key (environ st) c = Inr ck \<Longrightarrow> HTTP_CLIENTS st ck = Some cl \<Longrightarrow>
     do_call c st = (Inr cl, st)"
  using do_call_cases [of c st] by auto

lemma do_calls_environ: "environ (do_calls cs st) = environ st"
  by (induction cs arbitrary: st) (simp_all add: do_call_environ)

lemma do_calls_keeps:
  "HTTP_CLIENTS st k = Some v \<Longrightarrow> HTTP_CLIENTS (do_calls cs st) k = Some v"
  by (induction cs arbitrary: st) (simp_all add: do_call_keeps)

lemma do_calls_consistent: "consistent st \<Longrightarrow> consistent (do_calls cs st)"
  by (induction cs arbitrary: st) (simp_all add: do_call_consistent)

text \<open>
  C8. From a state in which registry and construction log agree (the state at import
  time does), let a first call return a client. Then, after any further calls, a call
  that resolves to the same credential key returns that same client object and changes
  nothing; the constructor has run exactly once for the key; and every entry that was in
  the registry is still there, unchanged.
\<close>

theorem http_client_get_or_create:
  assumes "consistent st"
    and "do_call c1 st = (Inr cl, st1)"
    and "call_client_key (environ st) c2 = call_client_key (environ st) c1"
  shows "\<exists>ck. call_client_key (environ st) c1 = Inr ck
           \<and> do_call c2 (do_calls cs st1) = (Inr cl, do_calls cs st1)
           \<and> count_list (constructed (do_calls cs st1)) ck = 1
           \<and> (\<forall>k v. HTTP_CLIENTS st k = Some v \<longrightarrow> HTTP_CLIENTS (do_calls cs st1) k = Some v)"
proof -
  from do_call_stored [OF assms(2)] obtain ck where
    ck: "call_client_key (environ st) c1 = Inr ck" and st1: "HTTP_CLIENTS st1 ck = Some cl"
    by blast
  have s1: "st1 = snd (do_call c1 st)" using assms(2) by simp
  let ?s2 = "do_calls cs st1"
  have env: "environ ?s2 = environ st"
    by (simp add: do_calls_environ s1 do_call_environ)
  have stored: "HTTP_CLIENTS ?s2 ck = Some cl"
    using st1 by (rule do_calls_keeps)
  have hit: "do_call c2 ?s2 = (Inr cl, ?s2)"
    by (rule do_call_hit [OF _ stored]) (simp add: env assms(3) ck)
  have "consistent ?s2"
    using assms(1) by (simp add: s1 do_call_consistent do_calls_consistent)
  then have once: "count_list (constructed ?s2) ck = 1"
    using stored by (auto simp: consistent_def dom_def)
  have keep: "\<forall>k v. HTTP_CLIENTS st k = Some v \<longrightarrow> HTTP_CLIENTS ?s2 k = Some v"
    by (simp add: s1 do_call_keeps do_calls_keeps)
  show ?thesis using ck hit once keep by blast
qed

lemma consistent_initial: "consistent (initial env)"
  by (simp add: consistent_def initial_def)

theorem http_client_get_or_create_witness:
  "consistent (initial Map.empty)
   \<and> (\<exists>cl st1. do_call example_call (initial Map.empty) = (Inr cl, st1)
        \<and> do_call (example_call\<lparr>call_loop := 7, call_base_url := None\<rparr>)
             (do_calls [example_call\<lparr>call_key := Some ''other''\<rparr>] st1)
           = (Inr cl, do_calls [example_call\<lparr>call_key := Some ''other''\<rparr>] st1)
        \<and> count_list (constructed (do_calls [example_call\<lparr>call_key := Some ''other''\<rparr>] st1))
             ''k|s'' = 1)"
proof -
  let ?st = "initial Map.empty"
  let ?cl = "\<lparr>obj = 0, loop = 1, clock = 2, logger = 3, key = ''k'', secret = ''s'',
              base_url = Some ''https://api.binance.com''\<rparr>"
  let ?st1 = "snd (do_call example_call ?st)"
  have c: "consistent ?st" by (rule consistent_initial)
  have d: "do_call example_call ?st = (Inr ?cl, ?st1)"
    by (simp add: do_call_def get_cached_binance_http_client_def resolve_credentials_def
        or_else_def example_call_def initial_def client_key_of_def Let_def)
  have k: "call_client_key (environ ?st) (example_call\<lparr>call_loop := 7, call_base_url := None\<rparr>)
         = call_client_key (environ ?st) example_call"
    by (simp add: call_client_key_def)
  have ck: "call_client_key (environ ?st) example_call = Inr ''k|s''"
    by (simp add: call_client_key_def resolve_credentials_def or_else_def example_call_def
        client_key_of_def)
  from http_client_get_or_create [OF c d k, of "[example_call\<lparr>call_key := Some ''other''\<rparr>]"] ck
  show ?thesis using c d by auto
qed

section \<open>Properties of the Polymarket parsers\<close>

lemma and_then_Inr:
  "and_then x f = Inr r \<Longrightarrow> \<exists>v. x = Inr v \<and> f v = Inr r"
  by (cases x) (simp_all add: and_then_def)

lemma and_then_simps [simp]:
  "and_then (Inr v) f = f v" "and_then (Inl e) f = Inl e"
  by (simp_all add: and_then_def)

lemma new_OrderStatusReport_Inr:
  assumes "new_OrderStatusReport args = Inr r"
  shows "r = args" and "fixed_value (filled_qty r) \<le> fixed_value (quantity r)"
    and "venue_order_id_value (OrderStatusReport.venue_order_id r) \<noteq> []"
  using assms by (auto simp: new_OrderStatusReport_def split: if_splits)

lemma example_order_price: "and_then (py_float ''0.37'') (make_price example_instrument)
   = Inr \<lparr>raw = 37, precision = 2\<rparr>"
  by code_simp

lemma example_order_quantity: "and_then (py_float ''10.5'') (make_qty example_instrument)
   = Inr \<lparr>raw = 1050, precision = 2\<rparr>"
  by code_simp

lemma example_order_filled: "and_then (py_float ''2.0'') (make_qty example_instrument)
   = Inr \<lparr>raw = 200, precision = 2\<rparr>"
  by code_simp

lemma example_order_timestamp: "py_int ''1700000000000'' = Inr 1700000000000"
  by code_simp

lemma example_order_expiration: "expire_time_of ''0'' = Inr (Some 0)"
  by code_simp

lemma example_instrument_id: "BinaryOption.id' example_instrument = ''TOKEN.POLYMARKET''"
  by (simp add: example_instrument_def)

lemma example_order_report:
  "user_order_parse_to_order_status_report example_vocab ''u'' example_order ''acc''
     example_instrument None 5 = Inr example_report"
  unfolding user_order_parse_to_order_status_report_def
  by (simp add: example_order_def example_order_price example_order_quantity
      example_order_filled example_order_timestamp example_order_expiration
      millis_to_nanos_def example_report_def example_vocab_def
      user_order_venue_order_id_def example_instrument_id
      new_OrderStatusReport_def fixed_value_def)

lemma example_open_order_report:
  "open_order_parse_to_order_status_report example_vocab ''u'' example_open_order ''acc''
     example_instrument None 5 = Inr example_report"
  unfolding open_order_parse_to_order_status_report_def
  by (simp add: example_open_order_def example_order_price example_order_quantity
      example_order_filled example_order_expiration
      millis_to_nanos_def example_report_def example_vocab_def
      get_venue_order_id_def example_instrument_id
      new_OrderStatusReport_def fixed_value_def)

lemma expire_time_of_cases:
  assumes "expire_time_of s = Inr x"
  shows "(s = [] \<and> x = None)
       \<or> (\<exists>millis. s \<noteq> [] \<and> py_int s = Inr millis \<and> x = Some (millis * 1000000))"
  using assms
  by (auto simp: expire_time_of_def and_then_def millis_to_nanos_def
      split: if_splits sum.splits)

lemma user_order_report_expire:
  assumes "user_order_parse_to_order_status_report vocab uuid self acct instrument c i = Inr r"
  shows "expire_time_of (PolymarketUserOrder.expiration self) = Inr (expire_time r)"
  using assms unfolding user_order_parse_to_order_status_report_def
  by (auto dest!: and_then_Inr new_OrderStatusReport_Inr(1))

lemma open_order_report_expire:
  assumes "open_order_parse_to_order_status_report vocab uuid self acct instrument c i = Inr r"
  shows "expire_time_of (PolymarketOpenOrder.expiration self) = Inr (expire_time r)"
  using assms unfolding open_order_parse_to_order_status_report_def
  by (auto dest!: and_then_Inr new_OrderStatusReport_Inr(1))

text \<open>
  C1, as stated, has \<open>expire_time = None\<close> for the example payload, whose expiration
  field is the string \<open>"0"\<close>. The string is not empty, so the parser converts it: the
  report has the expiry \<open>0\<close>.
\<close>

theorem expiration_zero_counterexample:
  "user_order_parse_to_order_status_report example_vocab ''u'' example_order ''acc''
     example_instrument None 5 = Inr example_report
   \<and> PolymarketUserOrder.expiration example_order = ''0''
   \<and> expire_time example_report \<noteq> None"
  using example_order_report by (simp add: example_report_def example_order_def)

text \<open>
  C1, amended. A report produced from an order update (or from an open-order snapshot)
  has no expiry exactly when the expiration field is the empty string; otherwise the
  field is read as an integer count of milliseconds and the expiry is that count in
  nanoseconds, also when the count is zero. The example payload (expiration \<open>"0"\<close>,
  sizes \<open>"10.5"\<close> and \<open>"2.0"\<close>, price \<open>"0.37"\<close>, two decimals) yields quantity 10.50,
  filled quantity 2.00, price 0.37 and the expiry \<open>0\<close>.
\<close>

theorem expire_time_rule:
  "(user_order_parse_to_order_status_report vocab uuid order acct instrument c i = Inr r \<longrightarrow>
      (PolymarketUserOrder.expiration order = [] \<and> expire_time r = None)
      \<or> (\<exists>millis. PolymarketUserOrder.expiration order \<noteq> []
            \<and> py_int (PolymarketUserOrder.expiration order) = Inr millis
            \<and> expire_time r = Some (millis * 1000000)))
   \<and> (open_order_parse_to_order_status_report vocab uuid open_order acct instrument c i = Inr r' \<longrightarrow>
      (PolymarketOpenOrder.expiration open_order = [] \<and> expire_time r' = None)
      \<or> (\<exists>millis. PolymarketOpenOrder.expiration open_order \<noteq> []
            \<and> py_int (PolymarketOpenOrder.expiration open_order) = Inr millis
            \<and> expire_time r' = Some (millis * 1000000)))
   \<and> user_order_parse_to_order_status_report example_vocab ''u'' example_order ''acc''
        example_instrument None 5 = Inr example_report
   \<and> quantity example_report = \<lparr>raw = 1050, precision = 2\<rparr>
   \<and> filled_qty example_report = \<lparr>raw = 200, precision = 2\<rparr>
   \<and> OrderStatusReport.price example_report = \<lparr>raw = 37, precision = 2\<rparr>
   \<and> expire_time example_report = Some 0"
proof -
  have a: "user_order_parse_to_order_status_report vocab uuid order acct instrument c i = Inr r \<longrightarrow>
      (PolymarketUserOrder.expiration order = [] \<and> expire_time r = None)
      \<or> (\<exists>millis. PolymarketUserOrder.expiration order \<noteq> []
            \<and> py_int (PolymarketUserOrder.expiration order) = Inr millis
            \<and> expire_time r = Some (millis * 1000000))"
    using expire_time_of_cases [OF user_order_report_expire] by blast
  have b: "open_order_parse_to_order_status_report vocab uuid open_order acct instrument c i = Inr r' \<longrightarrow>
      (PolymarketOpenOrder.expiration open_order = [] \<and> expire_time r' = None)
      \<or> (\<exists>millis. PolymarketOpenOrder.expiration open_order \<noteq> []
            \<and> py_int (PolymarketOpenOrder.expiration open_order) = Inr millis
            \<and> expire_time r' = Some (millis * 1000000))"
    using expire_time_of_cases [OF open_order_report_expire] by blast
  have c: "quantity example_report = \<lparr>raw = 1050, precision = 2\<rparr>
   \<and> filled_qty example_report = \<lparr>raw = 200, precision = 2\<rparr>
   \<and> OrderStatusReport.price example_report = \<lparr>raw = 37, precision = 2\<rparr>
   \<and> expire_time example_report = Some 0"
    by (simp add: example_report_def)
  show ?thesis using a b c example_order_report by blast
qed

theorem expire_time_rule_witness:
  "user_order_parse_to_order_status_report example_vocab ''u'' example_order ''acc''
     example_instrument None 5 = Inr example_report
   \<and> open_order_parse_to_order_status_report example_vocab ''u'' example_open_order ''acc''
     example_instrument None 5 = Inr example_report
   \<and> PolymarketUserOrder.expiration example_order \<noteq> []
   \<and> py_int (PolymarketUserOrder.expiration example_order) = Inr 0
   \<and> expire_time example_report = Some (0 * 1000000)
   \<and> fixed_value (quantity example_report) = 105 / 10"
  using expire_time_rule [of example_vocab "''u''" example_order "''acc''" example_instrument
      None 5 example_report example_open_order example_report]
    example_order_report example_open_order_report
  by (auto simp: example_order_def example_report_def fixed_value_def)

lemma first_maker_order_found:
  assumes "PolymarketMakerOrder.maker_address order = addr"
    and "\<forall>x \<in> set skipped. PolymarketMakerOrder.maker_address x \<noteq> addr"
  shows "first_maker_order (skipped @ order # rest) addr = Inr (VenueOrderId (order_id order))"
  using assms by (induction skipped) simp_all

lemma first_maker_order_none:
  assumes "\<forall>x \<in> set orders. PolymarketMakerOrder.maker_address x \<noteq> addr"
  shows "first_maker_order orders addr = Inl MakerOrderNotFound"
  using assms by (induction orders) simp_all

text \<open>
  C2. A taker-perspective trade resolves to liquidity side TAKER and to the payload's
  \<open>taker_order_id\<close>. A maker-perspective trade resolves to liquidity side MAKER; its
  venue order id is the \<open>order_id\<close> of the last sub-order in \<open>maker_orders\<close> whose
  address is the local maker address (the list is scanned from its end), and when no
  sub-order has that address the resolution raises MakerOrderNotFound.
\<close>

theorem trade_identity_resolution:
  "(trader_side trade = PolymarketLiquiditySide.TAKER \<longrightarrow>
      liqudity_side trade = LiquiditySide.TAKER
      \<and> user_trade_venue_order_id trade addr = Inr (VenueOrderId (taker_order_id trade)))
   \<and> (trader_side trade = PolymarketLiquiditySide.MAKER \<longrightarrow>
      liqudity_side trade = LiquiditySide.MAKER)
   \<and> (trader_side trade = PolymarketLiquiditySide.MAKER
        \<and> maker_orders trade = earlier @ order # later
        \<and> PolymarketMakerOrder.maker_address order = addr
        \<and> (\<forall>x \<in> set later. PolymarketMakerOrder.maker_address x \<noteq> addr) \<longrightarrow>
      user_trade_venue_order_id trade addr = Inr (VenueOrderId (order_id order)))
   \<and> (trader_side trade = PolymarketLiquiditySide.MAKER
        \<and> (\<forall>x \<in> set (maker_orders trade). PolymarketMakerOrder.maker_address x \<noteq> addr) \<longrightarrow>
      user_trade_venue_order_id trade addr = Inl MakerOrderNotFound)"
proof -
  have taker: "trader_side trade = PolymarketLiquiditySide.TAKER \<longrightarrow>
      liqudity_side trade = LiquiditySide.TAKER
      \<and> user_trade_venue_order_id trade addr = Inr (VenueOrderId (taker_order_id trade))"
    by (simp add: liqudity_side_def user_trade_venue_order_id_def)
  have maker: "trader_side trade = PolymarketLiquiditySide.MAKER \<longrightarrow>
      liqudity_side trade = LiquiditySide.MAKER"
    by (simp add: liqudity_side_def)
  have found: "user_trade_venue_order_id trade addr = Inr (VenueOrderId (order_id order))"
    if h: "trader_side trade = PolymarketLiquiditySide.MAKER
        \<and> maker_orders trade = earlier @ order # later
        \<and> PolymarketMakerOrder.maker_address order = addr
        \<and> (\<forall>x \<in> set later. PolymarketMakerOrder.maker_address x \<noteq> addr)"
  proof -
    have r: "rev (maker_orders trade) = rev later @ order # rev earlier"
      using h by simp
    have "first_maker_order (rev later @ order # rev earlier) addr
            = Inr (VenueOrderId (order_id order))"
      by (rule first_maker_order_found) (use h in auto)
    then show ?thesis
      using h r by (simp add: user_trade_venue_order_id_def)
  qed
  have missing: "user_trade_venue_order_id trade addr = Inl MakerOrderNotFound"
    if h: "trader_side trade = PolymarketLiquiditySide.MAKER
        \<and> (\<forall>x \<in> set (maker_orders trade). PolymarketMakerOrder.maker_address x \<noteq> addr)"
  proof -
    have "first_maker_order (rev (maker_orders trade)) addr = Inl MakerOrderNotFound"
      by (rule first_maker_order_none) (use h in simp)
    then show ?thesis
      using h by (simp add: user_trade_venue_order_id_def)
  qed
  show ?thesis
    using taker maker found missing by blast
qed

theorem trade_identity_resolution_witness:
  "liqudity_side example_trade = LiquiditySide.MAKER
   \<and> user_trade_venue_order_id example_trade ''0x01'' = Inr (VenueOrderId ''c'')
   \<and> user_trade_venue_order_id example_trade ''0x03''
       = Inl (ValueError ''Invalid array of maker orders (`maker_address` not found)'')
   \<and> liqudity_side (example_trade\<lparr>trader_side := PolymarketLiquiditySide.TAKER\<rparr>)
       = LiquiditySide.TAKER
   \<and> user_trade_venue_order_id (example_trade\<lparr>trader_side := PolymarketLiquiditySide.TAKER\<rparr>)
       ''0x01'' = Inr (VenueOrderId ''tk'')"
  using trade_identity_resolution [of example_trade "''0x01''"
      "[\<lparr>PolymarketMakerOrder.maker_address = ''0x01'', order_id = ''a''\<rparr>,
        \<lparr>PolymarketMakerOrder.maker_address = ''0x05'', order_id = ''b''\<rparr>]"
      "\<lparr>PolymarketMakerOrder.maker_address = ''0x01'', order_id = ''c''\<rparr>"
      "[\<lparr>PolymarketMakerOrder.maker_address = ''0x07'', order_id = ''d''\<rparr>]"]
    trade_identity_resolution [of example_trade "''0x03''"]
    trade_identity_resolution [of "example_trade\<lparr>trader_side := PolymarketLiquiditySide.TAKER\<rparr>"
      "''0x01''"]
  by (simp add: example_trade_def MakerOrderNotFound_def)

lemma example_fill_report:
  "user_order_parse_to_fill_report example_vocab ''u'' example_order ''acc''
     example_instrument None LiquiditySide.TAKER 5
   = Inr \<lparr>FillReport.account_id = ''acc'', instrument_id = ''TOKEN.POLYMARKET'',
       client_order_id = None, venue_order_id = VenueOrderId ''0xabc'',
       trade_id = TradeId ''0xabc'', order_side = ''BUY'',
       last_qty = \<lparr>raw = 200, precision = 2\<rparr>, last_px = \<lparr>raw = 37, precision = 2\<rparr>,
       liquidity_side = LiquiditySide.TAKER, report_id = ''u'',
       ts_event = 1700000000000000000, ts_init = 5\<rparr>"
  unfolding user_order_parse_to_fill_report_def
  by (simp add: example_order_def example_order_price example_order_filled
      example_order_timestamp millis_to_nanos_def example_vocab_def
      user_order_venue_order_id_def example_instrument_id)

text \<open>
  C10. A fill report produced from a user-order payload carries the payload's \<open>id\<close>
  twice: its trade id and its venue order id are the same string, whatever the account,
  instrument, client order id, liquidity side and ingestion time.
\<close>

theorem order_fill_trade_id_is_order_id:
  assumes "user_order_parse_to_fill_report vocab uuid order acct instrument c liq i = Inr r"
  shows "trade_id_value (trade_id r) = venue_order_id_value (FillReport.venue_order_id r)
       \<and> trade_id r = TradeId (PolymarketUserOrder.id' order)
       \<and> FillReport.venue_order_id r = VenueOrderId (PolymarketUserOrder.id' order)"
  using assms unfolding user_order_parse_to_fill_report_def
  by (auto dest!: and_then_Inr simp: user_order_venue_order_id_def)

theorem order_fill_trade_id_is_order_id_witness:
  "\<exists>r. user_order_parse_to_fill_report example_vocab ''u'' example_order ''acc''
          example_instrument None LiquiditySide.TAKER 5 = Inr r
       \<and> trade_id_value (trade_id r) = ''0xabc''
       \<and> venue_order_id_value (FillReport.venue_order_id r) = ''0xabc''"
  using order_fill_trade_id_is_order_id [OF example_fill_report] example_fill_report
  by (simp add: example_order_def)

section \<open>Properties of the number conversions\<close>

lemma round_half_even_bounds:
  "\<bar>of_int (round_half_even x) - x\<bar> \<le> 1 / 2"
proof -
  have "of_int \<lfloor>x\<rfloor> \<le> x" "x < of_int \<lfloor>x\<rfloor> + 1" by linarith+
  then show ?thesis
    by (auto simp: round_half_even_def Let_def)
qed

lemma round_half_even_mono:
  assumes "x \<le> y"
  shows "round_half_even x \<le> round_half_even y"
proof -
  have fx: "of_int \<lfloor>x\<rfloor> \<le> x" "x < of_int \<lfloor>x\<rfloor> + 1" by linarith+
  have fy: "of_int \<lfloor>y\<rfloor> \<le> y" "y < of_int \<lfloor>y\<rfloor> + 1" by linarith+
  have m: "\<lfloor>x\<rfloor> \<le> \<lfloor>y\<rfloor>" using assms by (rule floor_mono)
  show ?thesis
  proof (cases "\<lfloor>x\<rfloor> = \<lfloor>y\<rfloor>")
    case True
    then show ?thesis using assms
      by (auto simp: round_half_even_def Let_def)
  next
    case False
    then have "\<lfloor>x\<rfloor> + 1 \<le> \<lfloor>y\<rfloor>" using m by simp
    moreover have "round_half_even x \<le> \<lfloor>x\<rfloor> + 1"
      by (auto simp: round_half_even_def Let_def)
    moreover have "\<lfloor>y\<rfloor> \<le> round_half_even y"
      by (auto simp: round_half_even_def Let_def)
    ultimately show ?thesis by linarith
  qed
qed

lemma round_half_even_of_int [simp]: "round_half_even (of_int n) = n"
  by (simp add: round_half_even_def)

lemma round_half_even_le:
  assumes "x \<le> of_int n"
  shows "round_half_even x \<le> n"
  using round_half_even_mono [OF assms] by simp

lemma round_half_even_ge:
  assumes "of_int n \<le> x"
  shows "n \<le> round_half_even x"
  using round_half_even_mono [OF assms] by simp

lemma round_half_even_minus: "round_half_even (- x) = - round_half_even x"
proof (cases "x \<in> \<int>")
  case True
  then obtain n where "x = of_int n" by (auto elim: Ints_cases)
  then show ?thesis
    by (simp add: round_half_even_def Let_def flip: of_int_minus)
next
  case False
  have ne: "x \<noteq> of_int \<lfloor>x\<rfloor>"
    using False by (metis Ints_of_int)
  then have f: "\<lfloor>- x\<rfloor> = - \<lfloor>x\<rfloor> - 1"
    by (simp add: floor_minus ceiling_altdef)
  have fx: "of_int \<lfloor>x\<rfloor> \<le> x" "x < of_int \<lfloor>x\<rfloor> + 1" by linarith+
  show ?thesis
    unfolding round_half_even_def Let_def f
    using ne fx by (auto simp: algebra_simps)
qed

lemma round_half_away_mono:
  assumes "x \<le> y"
  shows "round_half_away x \<le> round_half_away y"
proof -
  have a: "\<lfloor>x + 1 / 2\<rfloor> \<le> \<lfloor>y + 1 / 2\<rfloor>" using assms by (intro floor_mono) simp
  have b: "\<lfloor>- y + 1 / 2\<rfloor> \<le> \<lfloor>- x + 1 / 2\<rfloor>" using assms by (intro floor_mono) simp
  consider "0 \<le> x" | "y < 0" | "x < 0" "0 \<le> y" using assms by linarith
  then show ?thesis
  proof cases
    case 1
    then have "0 \<le> y" using assms by simp
    then show ?thesis using 1 a by (simp add: round_half_away_def)
  next
    case 2
    then have "x < 0" using assms by simp
    then show ?thesis using 2 b by (simp add: round_half_away_def)
  next
    case 3
    have "round_half_away x \<le> 0"
      using 3(1) by (simp add: round_half_away_def)
    moreover have "0 \<le> round_half_away y"
      using 3(2) by (simp add: round_half_away_def)
    ultimately show ?thesis by linarith
  qed
qed

lemma round_half_away_near:
  assumes "\<bar>x - of_int k\<bar> < 1 / 2"
  shows "round_half_away x = k"
proof -
  have lo: "of_int k - 1 / 2 < x" and hi: "x < of_int k + 1 / 2"
    using assms by linarith+
  show ?thesis
  proof (cases "0 \<le> x")
    case True
    have "\<lfloor>x + 1 / 2\<rfloor> = k"
      by (rule floor_unique) (use lo hi in linarith)+
    then show ?thesis using True by (simp add: round_half_away_def)
  next
    case False
    have "\<lfloor>- x + 1 / 2\<rfloor> = - k"
      by (rule floor_unique) (use lo hi in simp_all)
    then show ?thesis using False by (simp add: round_half_away_def)
  qed
qed

lemma two_power_int_pos [simp]: "0 < power_int (2::rat) e"
  by (simp add: zero_less_power_int)

lemma two_power_int_mono:
  assumes "d \<le> e"
  shows "power_int (2::rat) d \<le> power_int 2 e"
  using assms by (intro power_int_increasing) simp_all

lemma two_power_int_less:
  assumes "power_int (2::rat) d < power_int 2 e"
  shows "d < e"
proof (rule ccontr)
  assume "\<not> d < e"
  then have "power_int (2::rat) e \<le> power_int 2 d"
    by (intro two_power_int_mono) simp
  then show False using assms by simp
qed

lemma bitlen_rat_bounds:
  assumes "0 < a"
  shows "power_int (2::rat) (bitlen a - 1) \<le> of_int a" "of_int a < power_int (2::rat) (bitlen a)"
proof -
  have b: "2 ^ nat (bitlen a - 1) \<le> a" "a < 2 ^ nat (bitlen a)"
    using bitlen_bounds [OF assms] by simp_all
  have p: "1 \<le> bitlen a"
    using assms bitlen_eq_zero_iff [of a] bitlen_nonneg [of a] by linarith
  have "(of_int (2 ^ nat (bitlen a - 1)) :: rat) \<le> of_int a"
    using b(1) by (simp only: of_int_le_iff)
  then show "power_int (2::rat) (bitlen a - 1) \<le> of_int a"
    using p by (simp add: power_int_def)
  have "(of_int a :: rat) < of_int (2 ^ nat (bitlen a))"
    using b(2) by (simp only: of_int_less_iff)
  then show "of_int a < power_int (2::rat) (bitlen a)"
    using p by (simp add: power_int_def)
qed

lemma ilog2_bounds:
  assumes "0 < x"
  shows "power_int 2 (ilog2 x) \<le> x" "x < power_int 2 (ilog2 x + 1)"
proof -
  obtain a b where q: "quotient_of x = (a, b)" by (cases "quotient_of x")
  have bpos: "0 < b" using q by (rule quotient_of_denom_pos)
  have x: "x = of_int a / of_int b" using q by (rule quotient_of_div)
  have apos: "0 < a"
    using assms bpos by (simp add: x zero_less_divide_iff)
  let ?e = "bitlen a - bitlen b"
  note A = bitlen_rat_bounds [OF apos] and B = bitlen_rat_bounds [OF bpos]
  have bq: "(0::rat) < of_int b" using bpos by simp
  have up: "x < power_int 2 (?e + 1)"
  proof -
    have "x * of_int b < power_int (2::rat) (bitlen a)"
      using A(2) bq by (simp add: x)
    also have "\<dots> = power_int 2 (?e + 1) * power_int 2 (bitlen b - 1)"
      by (simp flip: power_int_add)
    also have "\<dots> \<le> power_int 2 (?e + 1) * of_int b"
      using B(1) by (intro mult_left_mono) simp_all
    finally show ?thesis using bq by simp
  qed
  have lo: "power_int 2 (?e - 1) < x"
  proof -
    have "power_int (2::rat) (?e - 1) * of_int b < power_int 2 (?e - 1) * power_int 2 (bitlen b)"
      using B(2) by (intro mult_strict_left_mono) simp_all
    also have "\<dots> = power_int 2 (bitlen a - 1)"
      by (simp flip: power_int_add)
    also have "\<dots> \<le> x * of_int b"
      using A(1) bq by (simp add: x)
    finally show ?thesis using bq by simp
  qed
  have i: "ilog2 x = (if power_int 2 ?e \<le> x then ?e else ?e - 1)"
    by (simp add: ilog2_def q Let_def)
  show "power_int 2 (ilog2 x) \<le> x"
    using lo by (simp add: i)
  show "x < power_int 2 (ilog2 x + 1)"
    using up by (auto simp: i)
qed

lemma ilog2_mono:
  assumes "0 < x" and "x \<le> y"
  shows "ilog2 x \<le> ilog2 y"
proof -
  have "power_int 2 (ilog2 x) \<le> x" using assms(1) by (rule ilog2_bounds)
  also have "x \<le> y" by fact
  also have "y < power_int 2 (ilog2 y + 1)" using assms by (intro ilog2_bounds) simp
  finally have "ilog2 x < ilog2 y + 1" by (rule two_power_int_less)
  then show ?thesis by simp
qed

lemma ilog2_less:
  assumes "0 < x" and "x < power_int 2 e"
  shows "ilog2 x < e"
proof -
  have "power_int 2 (ilog2 x) \<le> x" using assms(1) by (rule ilog2_bounds)
  also have "x < power_int 2 e" by fact
  finally show ?thesis by (rule two_power_int_less)
qed

lemma round_half_even_zero [simp]: "round_half_even 0 = 0"
  by (simp add: round_half_even_def)

lemma nearest_double_alt:
  "nearest_double x =
     (if x = 0 then Finite 0
      else if 1024 < bitlen \<bar>float_significand x\<bar> + float_exponent x then
        (if 0 < x then PosInf else NegInf)
      else Finite (of_int (float_significand x) * power_int 2 (float_exponent x)))"
  by (simp add: nearest_double_def float_significand_def float_exponent_def Let_def)

lemma nearest_double_Finite:
  assumes "nearest_double x = Finite y"
  shows "y = of_int (float_significand x) * power_int 2 (float_exponent x)"
proof (cases "x = 0")
  case True
  then show ?thesis using assms
    by (simp add: nearest_double_def float_significand_def)
next
  case False
  then show ?thesis using assms
    by (auto simp: nearest_double_alt split: if_splits)
qed

lemma float_exponent_minus [simp]: "float_exponent (- x) = float_exponent x"
  by (simp add: float_exponent_def)

lemma float_significand_minus [simp]: "float_significand (- x) = - float_significand x"
  by (simp add: float_significand_def round_half_even_minus)

lemma float_exponent_mono:
  assumes "0 < x" and "x \<le> y"
  shows "float_exponent x \<le> float_exponent y"
  using ilog2_mono [of "\<bar>x\<bar>" "\<bar>y\<bar>"] assms by (simp add: float_exponent_def)

lemma float_significand_nonneg:
  assumes "0 < x"
  shows "0 \<le> float_significand x"
  unfolding float_significand_def
  by (rule round_half_even_ge) (use assms in simp)

lemma float_error:
  "\<bar>of_int (float_significand x) * power_int 2 (float_exponent x) - x\<bar>
     \<le> power_int 2 (float_exponent x) / 2"
proof -
  let ?u = "power_int (2::rat) (float_exponent x)"
  have u: "0 < ?u" by simp
  have "\<bar>of_int (float_significand x) - x / ?u\<bar> \<le> 1 / 2"
    unfolding float_significand_def by (rule round_half_even_bounds)
  then have "\<bar>of_int (float_significand x) - x / ?u\<bar> * ?u \<le> 1 / 2 * ?u"
    using u by (intro mult_right_mono) simp_all
  moreover have "\<bar>of_int (float_significand x) - x / ?u\<bar> * ?u
      = \<bar>of_int (float_significand x) * ?u - x\<bar>"
  proof -
    have "\<bar>of_int (float_significand x) - x / ?u\<bar> * ?u
        = \<bar>(of_int (float_significand x) - x / ?u) * ?u\<bar>"
      using u by (simp add: abs_mult)
    also have "(of_int (float_significand x) - x / ?u) * ?u
        = of_int (float_significand x) * ?u - x"
      using u by (simp add: algebra_simps)
    finally show ?thesis .
  qed
  ultimately show ?thesis by simp
qed

text \<open>A positive number below \<open>2^(e+53)\<close>, \<open>e\<close> its exponent, has a significand of at most \<open>2^53\<close>.\<close>

lemma float_significand_upper:
  assumes "0 < x" and "float_exponent x \<le> d"
  shows "of_int (float_significand x) * power_int (2::rat) (float_exponent x)
           \<le> power_int 2 (d + 53)"
proof -
  let ?e = "float_exponent x"
  have e: "ilog2 x - 52 \<le> ?e" using assms(1) by (simp add: float_exponent_def)
  have n: "0 \<le> d + 53 - ?e" using assms(2) by simp
  have "x < power_int 2 (ilog2 x + 1)" using assms(1) by (rule ilog2_bounds)
  also have "\<dots> \<le> power_int 2 (d + 53)"
    using e assms(2) by (intro two_power_int_mono) simp
  finally have "x / power_int 2 ?e \<le> power_int 2 (d + 53) / power_int 2 ?e"
    by (intro divide_right_mono) simp_all
  also have "\<dots> = power_int 2 (d + 53 - ?e)"
    by (simp add: power_int_diff)
  also have "\<dots> = of_int (2 ^ nat (d + 53 - ?e))"
    using n by (simp add: power_int_def)
  finally have "float_significand x \<le> 2 ^ nat (d + 53 - ?e)"
    unfolding float_significand_def by (rule round_half_even_le)
  then have "(of_int (float_significand x) :: rat) \<le> of_int (2 ^ nat (d + 53 - ?e))"
    by (simp only: of_int_le_iff)
  also have "\<dots> = power_int 2 (d + 53 - ?e)"
    using n by (simp add: power_int_def)
  finally have "of_int (float_significand x) * power_int (2::rat) ?e
      \<le> power_int 2 (d + 53 - ?e) * power_int 2 ?e"
    by (intro mult_right_mono) simp_all
  also have "\<dots> = power_int 2 (d + 53)"
    by (simp flip: power_int_add)
  finally show ?thesis .
qed

text \<open>A number whose exponent is above the subnormal one has a significand of at least \<open>2^52\<close>.\<close>

lemma float_significand_lower:
  assumes "0 < x" and "- 1074 < float_exponent x"
  shows "power_int (2::rat) (float_exponent x + 52)
           \<le> of_int (float_significand x) * power_int 2 (float_exponent x)"
proof -
  let ?e = "float_exponent x"
  have e: "?e = ilog2 x - 52" using assms by (simp add: float_exponent_def)
  have "power_int 2 (ilog2 x) \<le> x" using assms(1) by (rule ilog2_bounds)
  then have "power_int 2 (ilog2 x) / power_int 2 ?e \<le> x / power_int 2 ?e"
    by (intro divide_right_mono) simp_all
  moreover have "power_int (2::rat) (ilog2 x) / power_int 2 ?e = of_int (2 ^ 52)"
  proof -
    have "power_int (2::rat) (ilog2 x) / power_int 2 ?e = power_int 2 (ilog2 x - ?e)"
      by (simp add: power_int_diff)
    also have "ilog2 x - ?e = 52" using e by simp
    also have "power_int (2::rat) 52 = of_int (2 ^ 52)" by (simp add: power_int_def)
    finally show ?thesis .
  qed
  ultimately have "of_int (2 ^ 52) \<le> x / power_int 2 ?e" by simp
  then have "2 ^ 52 \<le> float_significand x"
    unfolding float_significand_def by (rule round_half_even_ge)
  then have "(of_int (2 ^ 52) :: rat) \<le> of_int (float_significand x)"
    by (simp only: of_int_le_iff)
  then have step: "of_int (2 ^ 52) * power_int (2::rat) ?e
      \<le> of_int (float_significand x) * power_int 2 ?e"
    by (intro mult_right_mono) simp_all
  have "power_int (2::rat) (?e + 52) = of_int (2 ^ 52) * power_int 2 ?e"
    by (simp add: power_int_add)
  also note step
  finally show ?thesis .
qed

lemma float_value_mono_pos:
  assumes "0 < x" and "x \<le> y"
  shows "of_int (float_significand x) * power_int (2::rat) (float_exponent x)
           \<le> of_int (float_significand y) * power_int 2 (float_exponent y)"
proof (cases "float_exponent x = float_exponent y")
  case True
  have "x / power_int 2 (float_exponent y) \<le> y / power_int 2 (float_exponent y)"
    using assms(2) by (intro divide_right_mono) simp_all
  then have "float_significand x \<le> float_significand y"
    unfolding float_significand_def True by (rule round_half_even_mono)
  then have "(of_int (float_significand x) :: rat) \<le> of_int (float_significand y)"
    by (simp only: of_int_le_iff)
  then show ?thesis
    unfolding True by (intro mult_right_mono) simp_all
next
  case False
  have y: "0 < y" using assms by simp
  have "float_exponent x \<le> float_exponent y" using assms by (rule float_exponent_mono)
  then have lt: "float_exponent x < float_exponent y" using False by simp
  have "- 1074 \<le> float_exponent x" by (simp add: float_exponent_def)
  then have sub: "- 1074 < float_exponent y" using lt by simp
  have "of_int (float_significand x) * power_int (2::rat) (float_exponent x)
          \<le> power_int 2 (float_exponent y - 1 + 53)"
    using assms(1) by (rule float_significand_upper) (use lt in simp)
  also have "\<dots> = power_int 2 (float_exponent y + 52)"
    by (simp add: algebra_simps)
  also have "\<dots> \<le> of_int (float_significand y) * power_int 2 (float_exponent y)"
    using y sub by (rule float_significand_lower)
  finally show ?thesis .
qed

text \<open>Rounding to the nearest double is monotone.\<close>

lemma nearest_double_mono:
  assumes "x \<le> y" and "nearest_double x = Finite a" and "nearest_double y = Finite b"
  shows "a \<le> b"
proof -
  note a = nearest_double_Finite [OF assms(2)] and b = nearest_double_Finite [OF assms(3)]
  have pos: "0 \<le> of_int (float_significand z) * power_int (2::rat) (float_exponent z)"
    if "0 < z" for z
    using float_significand_nonneg [OF that] by simp
  have zero: "of_int (float_significand 0) * power_int (2::rat) (float_exponent 0) = 0"
    by (simp add: float_significand_def)
  have neg: "of_int (float_significand z) * power_int (2::rat) (float_exponent z) \<le> 0"
    if "z < 0" for z
    using pos [of "- z"] that by simp
  consider "0 < x" | "y < 0" | "x \<le> 0" "0 \<le> y" using assms(1) by linarith
  then show ?thesis
  proof cases
    case 1
    then show ?thesis using float_value_mono_pos [OF 1 assms(1)] a b by simp
  next
    case 2
    then have "0 < - y" "- y \<le> - x" using assms(1) by simp_all
    from float_value_mono_pos [OF this] show ?thesis using a b by simp
  next
    case 3
    have "a \<le> 0"
      using 3(1) neg [of x] zero a by (cases "x = 0") auto
    moreover have "0 \<le> b"
      using 3(2) pos [of y] zero b by (cases "y = 0") auto
    ultimately show ?thesis by simp
  qed
qed

lemma to_fixed_Inr:
  assumes "to_fixed p x = Inr f"
  obtains v where "x = Finite v" "f = \<lparr>raw = round_half_away (v * 10 ^ p), precision = p\<rparr>"
  using assms by (cases x) (auto simp: to_fixed_def)

lemma to_fixed_nearest_mono:
  assumes "a \<le> b"
    and "to_fixed p (nearest_double a) = Inr f"
    and "to_fixed p (nearest_double b) = Inr g"
  shows "fixed_value f \<le> fixed_value g"
proof -
  from assms(2) obtain u where u: "nearest_double a = Finite u"
    "f = \<lparr>raw = round_half_away (u * 10 ^ p), precision = p\<rparr>"
    by (rule to_fixed_Inr)
  from assms(3) obtain w where w: "nearest_double b = Finite w"
    "g = \<lparr>raw = round_half_away (w * 10 ^ p), precision = p\<rparr>"
    by (rule to_fixed_Inr)
  have "u \<le> w" using assms(1) u(1) w(1) by (rule nearest_double_mono)
  then have "u * 10 ^ p \<le> w * 10 ^ p" by (intro mult_right_mono) simp_all
  then have "round_half_away (u * 10 ^ p) \<le> round_half_away (w * 10 ^ p)"
    by (rule round_half_away_mono)
  then have "(of_int (round_half_away (u * 10 ^ p)) :: rat) \<le> of_int (round_half_away (w * 10 ^ p))"
    by (simp only: of_int_le_iff)
  then show ?thesis
    by (simp add: fixed_value_def u(2) w(2) divide_right_mono)
qed

lemma float_exponent_unit_small:
  assumes "x \<noteq> 0" and "\<bar>x\<bar> * 10 ^ p < 2 ^ 52" and "p \<le> 300"
  shows "power_int 2 (float_exponent x) * 10 ^ p < (1::rat)"
proof (cases "- 1074 \<le> ilog2 \<bar>x\<bar> - 52")
  case True
  then have e: "float_exponent x = ilog2 \<bar>x\<bar> - 52" by (simp add: float_exponent_def)
  have "power_int (2::rat) (ilog2 \<bar>x\<bar>) \<le> \<bar>x\<bar>"
    using assms(1) by (intro ilog2_bounds) simp
  then have "power_int (2::rat) (ilog2 \<bar>x\<bar>) * 10 ^ p \<le> \<bar>x\<bar> * 10 ^ p"
    by (intro mult_right_mono) simp_all
  also have "\<dots> < 2 ^ 52" by fact
  finally have lt: "power_int (2::rat) (ilog2 \<bar>x\<bar>) * 10 ^ p < 2 ^ 52" .
  have eq: "power_int (2::rat) (ilog2 \<bar>x\<bar> - 52) = power_int 2 (ilog2 \<bar>x\<bar>) / 2 ^ 52"
  proof -
    have "power_int (2::rat) (ilog2 \<bar>x\<bar> - 52)
        = power_int 2 (ilog2 \<bar>x\<bar>) / power_int 2 52"
      by (rule power_int_diff) simp
    also have "power_int (2::rat) 52 = 2 ^ 52" by (simp add: power_int_def)
    finally show ?thesis .
  qed
  have "power_int (2::rat) (ilog2 \<bar>x\<bar> - 52) * 10 ^ p
      = (power_int 2 (ilog2 \<bar>x\<bar>) * 10 ^ p) / 2 ^ 52"
    by (simp add: eq)
  also have "\<dots> < 2 ^ 52 / 2 ^ 52"
    using lt by (intro divide_strict_right_mono) simp_all
  also have "\<dots> = (1::rat)" by simp
  finally show ?thesis by (simp only: e)
next
  case False
  then have e: "float_exponent x = - 1074" by (simp add: float_exponent_def)
  define T :: rat where "T = 2 ^ 1074"
  have Tpos: "0 < T" by (simp add: T_def)
  have "(10::rat) ^ p \<le> 10 ^ 300"
    using assms(3) by (intro power_increasing) simp_all
  also have "\<dots> < T" unfolding T_def by simp
  finally have lt: "(10::rat) ^ p < T" .
  have "power_int (2::rat) (- 1074) = inverse (power_int 2 1074)"
    by (rule power_int_minus)
  also have "power_int (2::rat) 1074 = T"
    unfolding T_def power_int_def by simp
  finally have pw: "power_int (2::rat) (- 1074) = inverse T" .
  have "power_int (2::rat) (- 1074) * 10 ^ p = 10 ^ p / T"
    by (simp only: pw divide_inverse mult.commute)
  also have "\<dots> < T / T"
    using lt Tpos by (intro divide_strict_right_mono)
  also have "\<dots> = 1" using Tpos by simp
  finally show ?thesis by (simp only: e)
qed

lemma float_significand_abs: "\<bar>float_significand x\<bar> = float_significand \<bar>x\<bar>"
proof (cases "0 \<le> x")
  case True
  then have "0 \<le> float_significand x"
    using float_significand_nonneg [of x] by (cases "x = 0") (simp_all add: float_significand_def)
  then show ?thesis using True by simp
next
  case False
  then have "0 \<le> float_significand (- x)"
    using float_significand_nonneg [of "- x"] by simp
  then show ?thesis using False by simp
qed

lemma round_half_away_zero [simp]: "round_half_away 0 = 0"
  using round_half_away_near [of 0 0] by simp

lemma to_fixed_exact:
  assumes "v * 10 ^ p = of_int k" and "\<bar>k\<bar> < 2 ^ 52" and "p \<le> 300"
  shows "to_fixed p (nearest_double v) = Inr \<lparr>raw = k, precision = p\<rparr>"
proof (cases "v = 0")
  case True
  then have "k = 0" using assms(1) by simp
  then show ?thesis using True
    by (simp add: nearest_double_def to_fixed_def)
next
  case False
  let ?e = "float_exponent v" and ?m = "float_significand v"
  have pos: "0 < \<bar>v\<bar>" using False by simp
  have "\<bar>v\<bar> * 10 ^ p = \<bar>v * 10 ^ p\<bar>" by (simp add: abs_mult)
  also have "\<dots> = of_int \<bar>k\<bar>" by (simp add: assms(1))
  also have "\<dots> < of_int (2 ^ 52)" using assms(2) by (simp only: of_int_less_iff)
  finally have lt: "\<bar>v\<bar> * 10 ^ p < 2 ^ 52" by simp
  have "\<bar>v\<bar> * 1 \<le> \<bar>v\<bar> * 10 ^ p" by (intro mult_left_mono) simp_all
  then have "\<bar>v\<bar> < 2 ^ 52" using lt by simp
  then have "\<bar>v\<bar> < power_int 2 52" by simp
  with pos have "ilog2 \<bar>v\<bar> < 52" by (rule ilog2_less)
  then have eneg: "?e \<le> - 1" by (simp add: float_exponent_def)
  have "of_int (float_significand \<bar>v\<bar>) * power_int (2::rat) (float_exponent \<bar>v\<bar>)
          \<le> power_int 2 (float_exponent \<bar>v\<bar> + 53)"
    using pos by (rule float_significand_upper) simp
  also have "\<dots> = of_int (2 ^ 53) * power_int 2 (float_exponent \<bar>v\<bar>)"
    by (simp add: power_int_add)
  finally have "(of_int (float_significand \<bar>v\<bar>) :: rat) \<le> of_int (2 ^ 53)"
    by (rule mult_right_le_imp_le) simp
  then have "float_significand \<bar>v\<bar> \<le> 2 ^ 53" by (simp only: of_int_le_iff)
  then have "\<bar>?m\<bar> < 2 ^ nat 54" by (simp add: float_significand_abs)
  then have "bitlen \<bar>?m\<bar> \<le> 54" by (subst bitlen_le_iff_power) simp
  then have fin: "\<not> 1024 < bitlen \<bar>?m\<bar> + ?e" using eneg by simp
  define y where "y = of_int ?m * power_int (2::rat) ?e"
  have nd: "nearest_double v = Finite y"
    using False fin by (simp add: nearest_double_alt y_def)
  have "\<bar>y * 10 ^ p - of_int k\<bar> = \<bar>(y - v) * 10 ^ p\<bar>"
    by (simp add: algebra_simps flip: assms(1))
  also have "\<dots> = \<bar>y - v\<bar> * 10 ^ p" by (simp add: abs_mult)
  also have "\<dots> \<le> power_int 2 ?e / 2 * 10 ^ p"
    unfolding y_def by (intro mult_right_mono float_error) simp
  also have "\<dots> = (power_int 2 ?e * 10 ^ p) / 2" by simp
  also have "\<dots> < 1 / 2"
    using float_exponent_unit_small [OF False lt assms(3)] by simp
  finally have "round_half_away (y * 10 ^ p) = k" by (rule round_half_away_near)
  then show ?thesis by (simp add: nd to_fixed_def)
qed

section \<open>Quantities and prices of the reports\<close>

lemma py_float_value:
  assumes "parse_decimal s = Some v"
  shows "py_float s = Inr (nearest_double v)"
  using assms by (simp add: py_float_def)

lemma make_qty_mono:
  assumes "parse_decimal s = Some a" and "parse_decimal t = Some b" and "a \<le> b"
    and "and_then (py_float s) (make_qty instrument) = Inr f"
    and "and_then (py_float t) (make_qty instrument) = Inr g"
  shows "fixed_value f \<le> fixed_value g"
proof -
  have "to_fixed (size_precision instrument) (nearest_double a) = Inr f"
    using assms(4) by (simp add: py_float_value [OF assms(1)] make_qty_def)
  moreover have "to_fixed (size_precision instrument) (nearest_double b) = Inr g"
    using assms(5) by (simp add: py_float_value [OF assms(2)] make_qty_def)
  ultimately show ?thesis
    using assms(3) by (intro to_fixed_nearest_mono)
qed

lemma user_order_report_quantities:
  assumes "user_order_parse_to_order_status_report vocab uuid self acct instrument c i = Inr r"
  shows "and_then (py_float (PolymarketUserOrder.original_size self)) (make_qty instrument)
           = Inr (quantity r)"
    and "and_then (py_float (PolymarketUserOrder.size_matched self)) (make_qty instrument)
           = Inr (filled_qty r)"
proof -
  from assms obtain t e px q fl a l where
    "and_then (py_float (PolymarketUserOrder.original_size self)) (make_qty instrument) = Inr q"
    "and_then (py_float (PolymarketUserOrder.size_matched self)) (make_qty instrument) = Inr fl"
    "quantity r = q" "filled_qty r = fl"
    unfolding user_order_parse_to_order_status_report_def
    by (fastforce dest!: and_then_Inr new_OrderStatusReport_Inr(1))
  then show "and_then (py_float (PolymarketUserOrder.original_size self)) (make_qty instrument)
           = Inr (quantity r)"
    and "and_then (py_float (PolymarketUserOrder.size_matched self)) (make_qty instrument)
           = Inr (filled_qty r)"
    by simp_all
qed

lemma open_order_report_quantities:
  assumes "open_order_parse_to_order_status_report vocab uuid self acct instrument c i = Inr r"
  shows "and_then (py_float (PolymarketOpenOrder.original_size self)) (make_qty instrument)
           = Inr (quantity r)"
    and "and_then (py_float (PolymarketOpenOrder.size_matched self)) (make_qty instrument)
           = Inr (filled_qty r)"
proof -
  from assms obtain q fl where
    "and_then (py_float (PolymarketOpenOrder.original_size self)) (make_qty instrument) = Inr q"
    "and_then (py_float (PolymarketOpenOrder.size_matched self)) (make_qty instrument) = Inr fl"
    "quantity r = q" "filled_qty r = fl"
    unfolding open_order_parse_to_order_status_report_def
    by (fastforce dest!: and_then_Inr new_OrderStatusReport_Inr(1))
  then show "and_then (py_float (PolymarketOpenOrder.original_size self)) (make_qty instrument)
           = Inr (quantity r)"
    and "and_then (py_float (PolymarketOpenOrder.size_matched self)) (make_qty instrument)
           = Inr (filled_qty r)"
    by simp_all
qed

lemma user_order_report_invariant:
  assumes "user_order_parse_to_order_status_report vocab uuid self acct instrument c i = Inr r"
  shows "fixed_value (filled_qty r) \<le> fixed_value (quantity r)"
proof -
  from assms obtain args :: "('a, 'b, 'c) OrderStatusReport" where
    "new_OrderStatusReport args = Inr r"
    unfolding user_order_parse_to_order_status_report_def
    by (fastforce dest!: and_then_Inr)
  then show ?thesis by (rule new_OrderStatusReport_Inr(2))
qed

lemma open_order_report_invariant:
  assumes "open_order_parse_to_order_status_report vocab uuid self acct instrument c i = Inr r"
  shows "fixed_value (filled_qty r) \<le> fixed_value (quantity r)"
proof -
  from assms obtain args :: "('a, 'b, 'c) OrderStatusReport" where
    "new_OrderStatusReport args = Inr r"
    unfolding open_order_parse_to_order_status_report_def
    by (fastforce dest!: and_then_Inr)
  then show ?thesis by (rule new_OrderStatusReport_Inr(2))
qed

text \<open>
  The constructor turns down no payload whose sizes are in order: when the matched size
  is, as a number, at most the original size, so are the two quantities, since rounding
  to a double and rescaling to the instrument's precision are both monotone. With a
  non-empty order id and conversions that all succeed, the report is produced.
\<close>

lemma user_order_report_produced:
  assumes "py_int (PolymarketUserOrder.timestamp self) = Inr t"
    and "millis_to_nanos t = Inr n"
    and "expire_time_of (PolymarketUserOrder.expiration self) = Inr e"
    and "and_then (py_float (PolymarketUserOrder.price self)) (make_price instrument) = Inr px"
    and "and_then (py_float (PolymarketUserOrder.original_size self)) (make_qty instrument) = Inr q"
    and "and_then (py_float (PolymarketUserOrder.size_matched self)) (make_qty instrument) = Inr fl"
    and "PolymarketUserOrder.id' self \<noteq> []"
    and "parse_decimal (PolymarketUserOrder.size_matched self) = Some a"
    and "parse_decimal (PolymarketUserOrder.original_size self) = Some b" and "a \<le> b"
  shows "\<exists>r. user_order_parse_to_order_status_report vocab uuid self acct instrument c i = Inr r
           \<and> quantity r = q \<and> filled_qty r = fl"
proof -
  have "fixed_value fl \<le> fixed_value q"
    using assms(8,9,10,6,5) by (rule make_qty_mono)
  then show ?thesis
    unfolding user_order_parse_to_order_status_report_def
    by (simp add: assms(1-7) new_OrderStatusReport_def user_order_venue_order_id_def)
qed

lemma open_order_report_produced:
  assumes "millis_to_nanos (created_at self) = Inr n"
    and "expire_time_of (PolymarketOpenOrder.expiration self) = Inr e"
    and "and_then (py_float (PolymarketOpenOrder.price self)) (make_price instrument) = Inr px"
    and "and_then (py_float (PolymarketOpenOrder.original_size self)) (make_qty instrument) = Inr q"
    and "and_then (py_float (PolymarketOpenOrder.size_matched self)) (make_qty instrument) = Inr fl"
    and "PolymarketOpenOrder.id' self \<noteq> []"
    and "parse_decimal (PolymarketOpenOrder.size_matched self) = Some a"
    and "parse_decimal (PolymarketOpenOrder.original_size self) = Some b" and "a \<le> b"
  shows "\<exists>r. open_order_parse_to_order_status_report vocab uuid self acct instrument c i = Inr r
           \<and> quantity r = q \<and> filled_qty r = fl"
proof -
  have "fixed_value fl \<le> fixed_value q"
    using assms(7,8,9,5,4) by (rule make_qty_mono)
  then show ?thesis
    unfolding open_order_parse_to_order_status_report_def
    by (simp add: assms(1-6) new_OrderStatusReport_def get_venue_order_id_def)
qed

text \<open>
  A payload whose matched size (20.0) exceeds its original size (10.5) converts to a
  filled quantity of 20.00 and a quantity of 10.50; the constructor raises and no report
  is produced.
\<close>

lemma example_overfilled: "and_then (py_float ''20.0'') (make_qty example_instrument)
   = Inr \<lparr>raw = 2000, precision = 2\<rparr>"
  by code_simp

lemma example_overfilled_rejected:
  "isl (user_order_parse_to_order_status_report example_vocab ''u''
     (example_order\<lparr>PolymarketUserOrder.size_matched := ''20.0''\<rparr>) ''acc''
     example_instrument None 5)"
  unfolding user_order_parse_to_order_status_report_def
  by (simp add: example_order_def example_order_price example_order_quantity
      example_overfilled example_order_timestamp example_order_expiration
      millis_to_nanos_def example_vocab_def
      user_order_venue_order_id_def example_instrument_id
      new_OrderStatusReport_def fixed_value_def)

text \<open>
  C7. A report produced from an order update, or from an open-order snapshot, satisfies
  \<open>filled_qty \<le> quantity\<close>, where its quantity is the payload's original size and its
  filled quantity the payload's matched size, each read as a double and rescaled to the
  instrument's size precision. The parsers convert the two sizes one by one and do not
  compare them; the order is the construction invariant of the report, which the
  constructor they call holds every report to.
\<close>

theorem filled_le_quantity:
  "(user_order_parse_to_order_status_report vocab uuid order acct instrument c i = Inr r \<longrightarrow>
      and_then (py_float (PolymarketUserOrder.original_size order)) (make_qty instrument)
        = Inr (quantity r)
      \<and> and_then (py_float (PolymarketUserOrder.size_matched order)) (make_qty instrument)
        = Inr (filled_qty r)
      \<and> fixed_value (filled_qty r) \<le> fixed_value (quantity r))
   \<and> (open_order_parse_to_order_status_report vocab uuid open_order acct instrument c i = Inr r' \<longrightarrow>
      and_then (py_float (PolymarketOpenOrder.original_size open_order)) (make_qty instrument)
        = Inr (quantity r')
      \<and> and_then (py_float (PolymarketOpenOrder.size_matched open_order)) (make_qty instrument)
        = Inr (filled_qty r')
      \<and> fixed_value (filled_qty r') \<le> fixed_value (quantity r'))"
proof -
  have user: "and_then (py_float (PolymarketUserOrder.original_size order)) (make_qty instrument)
        = Inr (quantity r)
      \<and> and_then (py_float (PolymarketUserOrder.size_matched order)) (make_qty instrument)
        = Inr (filled_qty r)
      \<and> fixed_value (filled_qty r) \<le> fixed_value (quantity r)"
    if h: "user_order_parse_to_order_status_report vocab uuid order acct instrument c i = Inr r"
    using user_order_report_quantities [OF h] user_order_report_invariant [OF h] by simp
  have snapshot: "and_then (py_float (PolymarketOpenOrder.original_size open_order))
          (make_qty instrument) = Inr (quantity r')
      \<and> and_then (py_float (PolymarketOpenOrder.size_matched open_order)) (make_qty instrument)
        = Inr (filled_qty r')
      \<and> fixed_value (filled_qty r') \<le> fixed_value (quantity r')"
    if h: "open_order_parse_to_order_status_report vocab uuid open_order acct instrument c i
             = Inr r'"
    using open_order_report_quantities [OF h] open_order_report_invariant [OF h] by simp
  show ?thesis using user snapshot by blast
qed

theorem filled_le_quantity_witness:
  "user_order_parse_to_order_status_report example_vocab ''u'' example_order ''acc''
     example_instrument None 5 = Inr example_report
   \<and> open_order_parse_to_order_status_report example_vocab ''u'' example_open_order ''acc''
     example_instrument None 5 = Inr example_report
   \<and> fixed_value (filled_qty example_report) = 2
   \<and> fixed_value (quantity example_report) = 21 / 2
   \<and> fixed_value (filled_qty example_report) \<le> fixed_value (quantity example_report)"
proof -
  have v: "fixed_value (filled_qty example_report) = 2"
    "fixed_value (quantity example_report) = 21 / 2"
    by (simp_all add: example_report_def fixed_value_def)
  from filled_le_quantity [of example_vocab "''u''" example_order "''acc''" example_instrument
      None 5 example_report example_open_order example_report]
  show ?thesis
    using v example_order_report example_open_order_report by blast
qed

text \<open>
  C3, as stated, has no binary floating-point rounding and an exact result for every
  decimal string. The parsers call \<open>float\<close> on the string: \<open>float("0.37")\<close> is the
  double \<open>3332663724254167 / 2^53\<close>, not \<open>0.37\<close>. And a string with more fractional
  digits than the precision cannot be reproduced: \<open>"0.375"\<close> at two decimals becomes
  \<open>0.38\<close>.
\<close>

theorem conversion_exact_counterexample:
  "parse_decimal ''0.37'' = Some (37 / 100)
   \<and> py_float ''0.37'' = Inr (Finite (3332663724254167 / 9007199254740992))
   \<and> (3332663724254167 / 9007199254740992 :: rat) \<noteq> 37 / 100
   \<and> parse_decimal ''0.375'' = Some (3 / 8)
   \<and> and_then (py_float ''0.375'') (make_price example_instrument)
       = Inr \<lparr>raw = 38, precision = 2\<rparr>
   \<and> fixed_value \<lparr>raw = 38, precision = 2\<rparr> \<noteq> 3 / 8"
proof -
  have "parse_decimal ''0.37'' = Some (37 / 100)" by code_simp
  moreover have "py_float ''0.37'' = Inr (Finite (3332663724254167 / 9007199254740992))"
    by code_simp
  moreover have "(3332663724254167 / 9007199254740992 :: rat) \<noteq> 37 / 100" by simp
  moreover have "parse_decimal ''0.375'' = Some (3 / 8)" by code_simp
  moreover have "and_then (py_float ''0.375'') (make_price example_instrument)
       = Inr \<lparr>raw = 38, precision = 2\<rparr>" by code_simp
  moreover have "fixed_value \<lparr>raw = 38, precision = 2\<rparr> \<noteq> 3 / 8"
    by (simp add: fixed_value_def)
  ultimately show ?thesis by blast
qed

text \<open>
  C3, amended. The string is first rounded to the nearest double and the double is then
  rescaled to the instrument's precision \<open>p\<close>. When the value of the decimal string is
  a multiple of \<open>10^-p\<close> (it has at most \<open>p\<close> fractional digits that matter), say
  \<open>k / 10^p\<close> with \<open>\<bar>k\<bar> < 2^52\<close>, and \<open>p \<le> 300\<close>, the two roundings cancel: the
  price or quantity is \<open>k\<close> at precision \<open>p\<close>, whose value is the value of the string.
\<close>

theorem conversion_exact_for_short_decimals:
  assumes "parse_decimal s = Some v" and "v * 10 ^ p = of_int k" and "\<bar>k\<bar> < 2 ^ 52"
    and "p \<le> 300"
  shows "(price_precision instrument = p \<longrightarrow>
            and_then (py_float s) (make_price instrument) = Inr \<lparr>raw = k, precision = p\<rparr>)
       \<and> (size_precision instrument = p \<longrightarrow>
            and_then (py_float s) (make_qty instrument) = Inr \<lparr>raw = k, precision = p\<rparr>)
       \<and> fixed_value \<lparr>raw = k, precision = p\<rparr> = v"
proof -
  have f: "to_fixed p (nearest_double v) = Inr \<lparr>raw = k, precision = p\<rparr>"
    using assms(2,3,4) by (rule to_fixed_exact)
  have "fixed_value \<lparr>raw = k, precision = p\<rparr> = v * 10 ^ p / 10 ^ p"
    by (simp add: fixed_value_def assms(2))
  then have "fixed_value \<lparr>raw = k, precision = p\<rparr> = v" by simp
  then show ?thesis
    using f by (simp add: py_float_value [OF assms(1)] make_price_def make_qty_def)
qed

theorem conversion_exact_for_short_decimals_witness:
  "parse_decimal ''0.37'' = Some (37 / 100) \<and> (37 / 100 :: rat) * 10 ^ 2 = of_int 37
   \<and> \<bar>37 :: int\<bar> < 2 ^ 52 \<and> (2::nat) \<le> 300
   \<and> and_then (py_float ''0.37'') (make_price example_instrument)
       = Inr \<lparr>raw = 37, precision = 2\<rparr>
   \<and> and_then (py_float ''0.37'') (make_qty example_instrument)
       = Inr \<lparr>raw = 37, precision = 2\<rparr>
   \<and> fixed_value \<lparr>raw = 37, precision = 2\<rparr> = 37 / 100"
proof -
  have a: "parse_decimal ''0.37'' = Some (37 / 100)" by code_simp
  have b: "(37 / 100 :: rat) * 10 ^ 2 = of_int 37" by simp
  have c: "\<bar>37 :: int\<bar> < 2 ^ 52" by simp
  have d: "(2::nat) \<le> 300" by simp
  have p: "price_precision example_instrument = 2" "size_precision example_instrument = 2"
    by (simp_all add: example_instrument_def)
  from conversion_exact_for_short_decimals [OF a b c d, of example_instrument]
  show ?thesis using a b c d p by simp
qed

end
